theory Spec2Isabelle
  imports Main "HOL-Library.AList"
begin

section \<open>Python values\<close>

text \<open>
  The configuration is whatever \<^verbatim>\<open>yaml.safe_load\<close> returns, and the cells of a generated
  table are whatever the Faker producers and \<^verbatim>\<open>datetime.now()\<close> return. Both are
  Python values: \<^verbatim>\<open>None\<close>, booleans, integers, strings, timestamps, lists and
  dictionaries. A dictionary is an association list in insertion order, as Python
  iterates it. Floating point numbers, byte strings and sets are not represented.
\<close>

datatype pyval =
    PNone
  | PBool bool
  | PInt int
  | PStr string
  | PTime nat
  | PList "pyval list"
  | PDict "(pyval \<times> pyval) list"

datatype error =
    AttributeError
  | TypeError
  | KeyError
  | ValueError
  | OSError
  | YAMLError

type_synonym pydict = "(pyval \<times> pyval) list"

subsection \<open>Dictionary keys\<close>

text \<open>
  Python compares dictionary keys with \<^verbatim>\<open>==\<close> (after hashing): \<^verbatim>\<open>True\<close> and
  \<^verbatim>\<open>1\<close> are the same key, as are \<^verbatim>\<open>False\<close> and \<^verbatim>\<open>0\<close>; values of different
  types are different keys otherwise. Lists and dictionaries are unhashable.
\<close>

definition norm_key :: "pyval \<Rightarrow> pyval" where
  "norm_key k = (case k of PBool b \<Rightarrow> PInt (if b then 1 else 0) | _ \<Rightarrow> k)"

definition key_eq :: "pyval \<Rightarrow> pyval \<Rightarrow> bool" where
  "key_eq a b = (norm_key a = norm_key b)"

definition hashable :: "pyval \<Rightarrow> bool" where
  "hashable v = (case v of PList _ \<Rightarrow> False | PDict _ \<Rightarrow> False | _ \<Rightarrow> True)"

text \<open>\<^verbatim>\<open>d.get(k)\<close> without default: the value stored under a key equal to \<open>k\<close>.\<close>

fun dict_lookup :: "(pyval \<times> 'a) list \<Rightarrow> pyval \<Rightarrow> 'a option" where
  "dict_lookup [] k = None"
| "dict_lookup ((k', v) # d) k = (if key_eq k' k then Some v else dict_lookup d k)"

text \<open>
  \<^verbatim>\<open>d[k] = v\<close>: an existing key keeps its position (and its key object) and gets
  the new value; a new key is appended.
\<close>

fun dict_set :: "(pyval \<times> 'a) list \<Rightarrow> pyval \<Rightarrow> 'a \<Rightarrow> (pyval \<times> 'a) list" where
  "dict_set [] k v = [(k, v)]"
| "dict_set ((k', v') # d) k v =
     (if key_eq k' k then (k', v) # d else (k', v') # dict_set d k v)"

text \<open>\<^verbatim>\<open>d.update(items)\<close> for a sequence of key/value pairs, stored one by one in order.\<close>

fun dict_update :: "(pyval \<times> 'a) list \<Rightarrow> (pyval \<times> 'a) list \<Rightarrow> (pyval \<times> 'a) list" where
  "dict_update d [] = d"
| "dict_update d ((k, v) # kvs) = dict_update (dict_set d k v) kvs"

text \<open>A dictionary object never holds two equal keys, and its keys are hashable.\<close>

definition wf_dict :: "(pyval \<times> 'a) list \<Rightarrow> bool" where
  "wf_dict d = (distinct (map norm_key (map fst d)) \<and> list_all hashable (map fst d))"

subsection \<open>Operations of the Python runtime on values\<close>

fun sequence_sum :: "('e + 'a) list \<Rightarrow> 'e + 'a list" where
  "sequence_sum [] = Inr []"
| "sequence_sum (x # xs) =
     (case x of
        Inl e \<Rightarrow> Inl e
      | Inr a \<Rightarrow> (case sequence_sum xs of Inl e \<Rightarrow> Inl e | Inr as \<Rightarrow> Inr (a # as)))"

text \<open>Truth value of an object, as \<^verbatim>\<open>if obj:\<close> tests it.\<close>

definition truthy :: "pyval \<Rightarrow> bool" where
  "truthy v =
     (case v of
        PNone \<Rightarrow> False
      | PBool b \<Rightarrow> b
      | PInt n \<Rightarrow> n \<noteq> 0
      | PStr s \<Rightarrow> s \<noteq> []
      | PTime t \<Rightarrow> True
      | PList xs \<Rightarrow> xs \<noteq> []
      | PDict d \<Rightarrow> d \<noteq> [])"

text \<open>Iterating an object: a list gives its elements, a string its characters,
  a dictionary its keys; anything else is not iterable.\<close>

definition py_iter :: "pyval \<Rightarrow> error + pyval list" where
  "py_iter v =
     (case v of
        PList xs \<Rightarrow> Inr xs
      | PStr s \<Rightarrow> Inr (map (\<lambda>c. PStr [c]) s)
      | PDict d \<Rightarrow> Inr (map fst d)
      | _ \<Rightarrow> Inl TypeError)"

text \<open>\<^verbatim>\<open>obj.get(key, default)\<close>: only dictionaries have the method.\<close>

definition py_get :: "pyval \<Rightarrow> string \<Rightarrow> pyval \<Rightarrow> error + pyval" where
  "py_get obj key dflt =
     (case obj of
        PDict d \<Rightarrow> Inr (case dict_lookup d (PStr key) of Some v \<Rightarrow> v | None \<Rightarrow> dflt)
      | _ \<Rightarrow> Inl AttributeError)"

text \<open>\<^verbatim>\<open>obj[key]\<close> with a string key: a dictionary without the key raises
  \<^verbatim>\<open>KeyError\<close>; lists and strings want integer indices, the other values are not
  subscriptable.\<close>

definition py_getitem :: "pyval \<Rightarrow> string \<Rightarrow> error + pyval" where
  "py_getitem obj key =
     (case obj of
        PDict d \<Rightarrow> (case dict_lookup d (PStr key) of Some v \<Rightarrow> Inr v | None \<Rightarrow> Inl KeyError)
      | _ \<Rightarrow> Inl TypeError)"

text \<open>\<^verbatim>\<open>obj.copy()\<close>: dictionaries and lists have the method.\<close>

definition py_copy :: "pyval \<Rightarrow> error + pyval" where
  "py_copy obj =
     (case obj of
        PDict d \<Rightarrow> Inr (PDict d)
      | PList xs \<Rightarrow> Inr (PList xs)
      | _ \<Rightarrow> Inl AttributeError)"

text \<open>
  The argument of \<^verbatim>\<open>dict.update\<close>: a dictionary gives its items; any other iterable
  must consist of two-element sequences, each read as a key and a value.
\<close>

fun pair_of :: "pyval \<Rightarrow> error + (pyval \<times> pyval)" where
  "pair_of (PList [a, b]) = (if hashable a then Inr (a, b) else Inl TypeError)"
| "pair_of (PList xs) = Inl ValueError"
| "pair_of (PStr [c, d]) = Inr (PStr [c], PStr [d])"
| "pair_of (PStr s) = Inl ValueError"
| "pair_of (PDict [(k1, v1), (k2, v2)]) = Inr (k1, k2)"
| "pair_of (PDict d) = Inl ValueError"
| "pair_of v = Inl TypeError"

definition update_items :: "pyval \<Rightarrow> error + pydict" where
  "update_items other =
     (case other of
        PDict d \<Rightarrow> Inr d
      | _ \<Rightarrow> (case py_iter other of
                Inl e \<Rightarrow> Inl e
              | Inr xs \<Rightarrow> sequence_sum (map pair_of xs)))"

section \<open>Merging global and dataset configuration\<close>

text \<open>
  \<^verbatim>\<open>
  def _merge_configs(self, global_config, dataset_config):
    merged_config = global_config.copy()
    merged_config.update(dataset_config)
    return merged_config
  \<close>
  The copy must be a dictionary for \<^verbatim>\<open>update\<close> to exist.
\<close>

definition merge_configs :: "pyval \<Rightarrow> pyval \<Rightarrow> error + pyval" where
  "merge_configs global_config dataset_config =
     (case py_copy global_config of
        Inl e \<Rightarrow> Inl e
      | Inr merged_config \<Rightarrow>
          (case merged_config of
             PDict m \<Rightarrow>
               (case update_items dataset_config of
                  Inl e \<Rightarrow> Inl e
                | Inr kvs \<Rightarrow> Inr (PDict (dict_update m kvs)))
           | _ \<Rightarrow> Inl AttributeError))"

section \<open>The environment and the world\<close>

text \<open>
  What the program reads but does not define: the attributes of the \<^verbatim>\<open>Faker\<close>
  object (\<open>registry\<close>: what \<^verbatim>\<open>getattr(self.fake, name)\<close> gives for a string \<open>name\<close>,
  the callable found, acting on Faker's random state, or the error the lookup raises,
  \<^verbatim>\<open>AttributeError\<close> for a name Faker does not have), the
  clock read by \<^verbatim>\<open>datetime.now()\<close> (\<open>clock\<close>, indexed by the number of earlier
  readings), \<^verbatim>\<open>str()\<close> of values that are not strings (\<open>render\<close>), the parsed
  content of the files a configuration may be read from (\<open>config_files\<close>: \<open>None\<close>
  for a path that does not exist, an error when opening or parsing raises), and
  which directories can be created and which files written.
\<close>

type_synonym producer = "nat \<Rightarrow> (error + pyval) \<times> nat"

record env =
  registry :: "string \<Rightarrow> error + producer"
  clock :: "nat \<Rightarrow> nat"
  render :: "pyval \<Rightarrow> string"
  config_files :: "string \<Rightarrow> (error + pyval) option"
  creatable :: "string \<Rightarrow> bool"
  writable :: "string \<Rightarrow> bool"

type_synonym table = "(pyval \<times> pyval list) list"

record csv_file =
  sep :: char
  header :: "pyval list"
  body :: "pyval list list"

datatype printed = Line string | Preview table

text \<open>What the program changes: Faker's random state, the number of clock readings,
  the directories and files it has created, and the lines printed.\<close>

record world =
  rng :: nat
  ticks :: nat
  dirs :: "string list"
  files :: "(string \<times> csv_file) list"
  console :: "printed list"

record generator =
  config :: pyval
  global_metadata :: pyval
  global_output :: pyval

subsection \<open>Runtime and library calls\<close>

definition py_str :: "env \<Rightarrow> pyval \<Rightarrow> string" where
  "py_str e v = (case v of PStr s \<Rightarrow> s | _ \<Rightarrow> render e v)"

text \<open>\<^verbatim>\<open>range(n)\<close>: the number of iterations; a negative bound gives none, a
  boolean counts as 0 or 1, anything else is a \<^verbatim>\<open>TypeError\<close>.\<close>

definition py_range :: "pyval \<Rightarrow> error + nat" where
  "py_range v =
     (case v of
        PInt n \<Rightarrow> Inr (nat n)
      | PBool b \<Rightarrow> Inr (if b then 1 else 0)
      | _ \<Rightarrow> Inl TypeError)"

definition py_getattr :: "env \<Rightarrow> pyval \<Rightarrow> error + producer" where
  "py_getattr e name =
     (case name of
        PStr s \<Rightarrow> registry e s
      | _ \<Rightarrow> Inl TypeError)"

text \<open>\<^verbatim>\<open>[f() for _ in range(n)]\<close>: \<open>n\<close> calls in a row; the first call that raises
  ends the comprehension.\<close>

fun call_times :: "nat \<Rightarrow> producer \<Rightarrow> nat \<Rightarrow> (error + pyval list) \<times> nat" where
  "call_times 0 p r = (Inr [], r)"
| "call_times (Suc n) p r =
     (case p r of
        (Inl e, r') \<Rightarrow> (Inl e, r')
      | (Inr v, r') \<Rightarrow>
          (case call_times n p r' of
             (Inl e, r'') \<Rightarrow> (Inl e, r'')
           | (Inr vs, r'') \<Rightarrow> (Inr (v # vs), r'')))"

text \<open>\<^verbatim>\<open>self.fake.name()\<close>: the attribute is looked up at every call.\<close>

definition fake_name :: "env \<Rightarrow> producer" where
  "fake_name e r =
     (case registry e ''name'' of Inl err \<Rightarrow> (Inl err, r) | Inr p \<Rightarrow> p r)"

text \<open>\<^verbatim>\<open>pd.DataFrame(data)\<close> refuses columns of different lengths.\<close>

definition data_frame :: "table \<Rightarrow> error + table" where
  "data_frame data =
     (case data of
        [] \<Rightarrow> Inr []
      | (k, col) # rest \<Rightarrow>
          (if list_all (\<lambda>(k', col'). length col' = length col) rest
           then Inr data else Inl ValueError))"

text \<open>\<^verbatim>\<open>df.head(10)\<close>\<close>

definition head10 :: "table \<Rightarrow> table" where
  "head10 df = map (\<lambda>(k, col). (k, take 10 col)) df"

definition path_join :: "string \<Rightarrow> string \<Rightarrow> string" where
  "path_join a b =
     (if b \<noteq> [] \<and> hd b = CHR ''/'' then b
      else if a = [] \<or> last a = CHR ''/'' then a @ b
      else a @ ''/'' @ b)"

text \<open>\<^verbatim>\<open>os.makedirs(d, exist_ok=True)\<close>\<close>

definition makedirs :: "env \<Rightarrow> pyval \<Rightarrow> world \<Rightarrow> error option \<times> world" where
  "makedirs e d w =
     (case d of
        PStr s \<Rightarrow>
          (if creatable e s then (None, w\<lparr>dirs := List.insert s (dirs w)\<rparr>)
           else (Some OSError, w))
      | _ \<Rightarrow> (Some TypeError, w))"

text \<open>\<^verbatim>\<open>df.to_csv(path, sep=..., index=False)\<close>: a header row of column names and
  one row per table row. The rendering of the cells as text is left to pandas.\<close>

definition to_csv :: "env \<Rightarrow> table \<Rightarrow> string \<Rightarrow> char \<Rightarrow> world \<Rightarrow> error option \<times> world" where
  "to_csv e df path s w =
     (if writable e path
      then (None, w\<lparr>files := AList.update path
              \<lparr>sep = s, header = map fst df, body = transpose (map snd df)\<rparr> (files w)\<rparr>)
      else (Some OSError, w))"

section \<open>Building one table\<close>

text \<open>
  The body of the loop over the declared fields:
  \<^verbatim>\<open>
  field_name = field['name']
  faker_method_name = field['type']
  faker_method = getattr(self.fake, faker_method_name)
  data[field_name] = [faker_method() for _ in range(num_rows)]
  \<close>
  The column is computed before the key is hashed for the assignment.
\<close>

definition generate_field ::
  "env \<Rightarrow> pyval \<Rightarrow> pyval \<Rightarrow> table \<Rightarrow> world \<Rightarrow> (error + table) \<times> world" where
  "generate_field e num_rows field data w =
     (case py_getitem field ''name'' of
        Inl err \<Rightarrow> (Inl err, w)
      | Inr field_name \<Rightarrow>
     (case py_getitem field ''type'' of
        Inl err \<Rightarrow> (Inl err, w)
      | Inr faker_method_name \<Rightarrow>
     (case py_getattr e faker_method_name of
        Inl err \<Rightarrow> (Inl err, w)
      | Inr faker_method \<Rightarrow>
     (case py_range num_rows of
        Inl err \<Rightarrow> (Inl err, w)
      | Inr n \<Rightarrow>
     (case call_times n faker_method (rng w) of
        (Inl err, r) \<Rightarrow> (Inl err, w\<lparr>rng := r\<rparr>)
      | (Inr col, r) \<Rightarrow>
          (if hashable field_name
           then (Inr (dict_set data field_name col), w\<lparr>rng := r\<rparr>)
           else (Inl TypeError, w\<lparr>rng := r\<rparr>)))))))"

fun generate_fields ::
  "env \<Rightarrow> pyval \<Rightarrow> pyval list \<Rightarrow> table \<Rightarrow> world \<Rightarrow> (error + table) \<times> world" where
  "generate_fields e num_rows [] data w = (Inr data, w)"
| "generate_fields e num_rows (field # more_fields) data w =
     (case generate_field e num_rows field data w of
        (Inl err, w') \<Rightarrow> (Inl err, w')
      | (Inr data', w') \<Rightarrow> generate_fields e num_rows more_fields data' w')"

text \<open>
  The body of the loop over the metadata fields:
  \<^verbatim>\<open>
  if metadata_field == 'created_at' or metadata_field == 'modified_at':
    data[metadata_field] = [datetime.now() for _ in range(num_rows)]
  elif metadata_field == 'created_by' or metadata_field == 'modified_by':
    data[metadata_field] = [self.fake.name() for _ in range(num_rows)]
  \<close>
\<close>

definition generate_metadata_field ::
  "env \<Rightarrow> pyval \<Rightarrow> pyval \<Rightarrow> table \<Rightarrow> world \<Rightarrow> (error + table) \<times> world" where
  "generate_metadata_field e num_rows metadata_field data w =
     (if metadata_field = PStr ''created_at'' \<or> metadata_field = PStr ''modified_at'' then
        (case py_range num_rows of
           Inl err \<Rightarrow> (Inl err, w)
         | Inr n \<Rightarrow>
             (Inr (dict_set data metadata_field
                     (map (\<lambda>i. PTime (clock e (ticks w + i))) [0..<n])),
              w\<lparr>ticks := ticks w + n\<rparr>))
      else if metadata_field = PStr ''created_by'' \<or> metadata_field = PStr ''modified_by'' then
        (case py_range num_rows of
           Inl err \<Rightarrow> (Inl err, w)
         | Inr n \<Rightarrow>
             (case call_times n (fake_name e) (rng w) of
                (Inl err, r) \<Rightarrow> (Inl err, w\<lparr>rng := r\<rparr>)
              | (Inr col, r) \<Rightarrow> (Inr (dict_set data metadata_field col), w\<lparr>rng := r\<rparr>)))
      else (Inr data, w))"

fun generate_metadata ::
  "env \<Rightarrow> pyval \<Rightarrow> pyval list \<Rightarrow> table \<Rightarrow> world \<Rightarrow> (error + table) \<times> world" where
  "generate_metadata e num_rows [] data w = (Inr data, w)"
| "generate_metadata e num_rows (metadata_field # rest) data w =
     (case generate_metadata_field e num_rows metadata_field data w of
        (Inl err, w') \<Rightarrow> (Inl err, w')
      | (Inr data', w') \<Rightarrow> generate_metadata e num_rows rest data' w')"

text \<open>
  \<^verbatim>\<open>
  if metadata_config.get('enable', False):
    for metadata_field in metadata_config.get('fields', []):
  \<close>
\<close>

definition metadata_columns ::
  "env \<Rightarrow> pyval \<Rightarrow> pyval \<Rightarrow> table \<Rightarrow> world \<Rightarrow> (error + table) \<times> world" where
  "metadata_columns e num_rows metadata_config data w =
     (case py_get metadata_config ''enable'' (PBool False) of
        Inl err \<Rightarrow> (Inl err, w)
      | Inr enable \<Rightarrow>
          (if truthy enable then
             (case py_get metadata_config ''fields'' (PList []) of
                Inl err \<Rightarrow> (Inl err, w)
              | Inr fs \<Rightarrow>
                  (case py_iter fs of
                     Inl err \<Rightarrow> (Inl err, w)
                   | Inr metadata_fields \<Rightarrow>
                       generate_metadata e num_rows metadata_fields data w))
           else (Inr data, w)))"

text \<open>
  Lines 24 to 41 of \<^verbatim>\<open>generate\<close>: the row count, the two effective configurations,
  the field columns, the metadata columns. The result is the table with the values
  the rest of the loop body uses.
\<close>

record built =
  data :: table
  num_rows :: pyval
  metadata_config :: pyval
  output_config :: pyval

definition build_table ::
  "env \<Rightarrow> generator \<Rightarrow> pyval \<Rightarrow> world \<Rightarrow> (error + built) \<times> world" where
  "build_table e g dataset_config w =
     (case py_get dataset_config ''rows'' (PInt 100) of
        Inl err \<Rightarrow> (Inl err, w)
      | Inr rows \<Rightarrow>
     (case py_get dataset_config ''metadata'' (PDict []) of
        Inl err \<Rightarrow> (Inl err, w)
      | Inr local_metadata \<Rightarrow>
     (case merge_configs (global_metadata g) local_metadata of
        Inl err \<Rightarrow> (Inl err, w)
      | Inr mc \<Rightarrow>
     (case py_get dataset_config ''output'' (PDict []) of
        Inl err \<Rightarrow> (Inl err, w)
      | Inr local_output \<Rightarrow>
     (case merge_configs (global_output g) local_output of
        Inl err \<Rightarrow> (Inl err, w)
      | Inr oc \<Rightarrow>
     (case py_get dataset_config ''fields'' (PList []) of
        Inl err \<Rightarrow> (Inl err, w)
      | Inr fs \<Rightarrow>
     (case py_iter fs of
        Inl err \<Rightarrow> (Inl err, w)
      | Inr field_list \<Rightarrow>
     (case generate_fields e rows field_list [] w of
        (Inl err, w1) \<Rightarrow> (Inl err, w1)
      | (Inr data1, w1) \<Rightarrow>
     (case metadata_columns e rows mc data1 w1 of
        (Inl err, w2) \<Rightarrow> (Inl err, w2)
      | (Inr data2, w2) \<Rightarrow>
          (Inr \<lparr>data = data2, num_rows = rows, metadata_config = mc, output_config = oc\<rparr>,
           w2))))))))))"

section \<open>Writing one table\<close>

text \<open>\<^verbatim>\<open>f"Generated {num_rows} rows for dataset '{dataset_name}'"\<close>\<close>

definition progress_line :: "env \<Rightarrow> pyval \<Rightarrow> pyval \<Rightarrow> string" where
  "progress_line e rows dataset_name =
     ''Generated '' @ py_str e rows @ '' rows for dataset ''
       @ [CHR 0x27] @ py_str e dataset_name @ [CHR 0x27]"

text \<open>\<^verbatim>\<open>f"Unsupported output format: {output_format}"\<close>\<close>

definition unsupported_line :: "env \<Rightarrow> pyval \<Rightarrow> string" where
  "unsupported_line e output_format = ''Unsupported output format: '' @ py_str e output_format"

text \<open>\<^verbatim>\<open>os.path.join(output_directory, f"{dataset_name}.{output_format}")\<close>\<close>

definition output_path :: "env \<Rightarrow> pyval \<Rightarrow> pyval \<Rightarrow> pyval \<Rightarrow> string" where
  "output_path e output_directory dataset_name output_format =
     path_join (py_str e output_directory)
       (py_str e dataset_name @ ''.'' @ py_str e output_format)"

text \<open>
  Lines 43 to 58 of \<^verbatim>\<open>generate\<close>: the data frame, the two progress prints, the
  output directory, and the write in the effective format.
\<close>

definition write_output ::
  "env \<Rightarrow> pyval \<Rightarrow> built \<Rightarrow> world \<Rightarrow> error option \<times> world" where
  "write_output e dataset_name b w =
     (case data_frame (data b) of
        Inl err \<Rightarrow> (Some err, w)
      | Inr df \<Rightarrow>
     (let w1 = w\<lparr>console := console w @
               [Line (progress_line e (num_rows b) dataset_name), Preview (head10 df)]\<rparr>
      in
     (case py_get (output_config b) ''directory'' (PStr ''output/'') of
        Inl err \<Rightarrow> (Some err, w1)
      | Inr output_directory \<Rightarrow>
     (case makedirs e output_directory w1 of
        (Some err, w2) \<Rightarrow> (Some err, w2)
      | (None, w2) \<Rightarrow>
     (case py_get (output_config b) ''format'' (PStr ''csv'') of
        Inl err \<Rightarrow> (Some err, w2)
      | Inr output_format \<Rightarrow>
     (let output_file = output_path e output_directory dataset_name output_format
      in
        if output_format = PStr ''csv'' then to_csv e df output_file (CHR '','') w2
        else if output_format = PStr ''tsv'' then to_csv e df output_file (CHR 0x09) w2
        else (None, w2\<lparr>console := console w2 @
                [Line (unsupported_line e output_format)]\<rparr>)))))))"

section \<open>The generator\<close>

text \<open>
  \<^verbatim>\<open>
  def _load_config(self, config_path):
    if not os.path.exists(config_path):
      return {}
    with open(config_path, 'r') as f:
      return yaml.safe_load(f)
  \<close>
\<close>

definition load_config :: "env \<Rightarrow> string \<Rightarrow> error + pyval" where
  "load_config e config_path =
     (case config_files e config_path of
        None \<Rightarrow> Inr (PDict [])
      | Some parsed \<Rightarrow> parsed)"

text \<open>
  \<^verbatim>\<open>
  def __init__(self, config_path="config/config.yml"):
    self.config = self._load_config(config_path)
    global_config = self.config.get('global', {})
    self.global_metadata = global_config.get('metadata', {})
    self.global_output = global_config.get('output', {})
  \<close>
\<close>

definition init :: "env \<Rightarrow> string \<Rightarrow> error + generator" where
  "init e config_path =
     (case load_config e config_path of
        Inl err \<Rightarrow> Inl err
      | Inr cfg \<Rightarrow>
     (case py_get cfg ''global'' (PDict []) of
        Inl err \<Rightarrow> Inl err
      | Inr global_config \<Rightarrow>
     (case py_get global_config ''metadata'' (PDict []) of
        Inl err \<Rightarrow> Inl err
      | Inr gm \<Rightarrow>
     (case py_get global_config ''output'' (PDict []) of
        Inl err \<Rightarrow> Inl err
      | Inr go \<Rightarrow>
          Inr \<lparr>config = cfg, global_metadata = gm, global_output = go\<rparr>))))"

text \<open>One iteration of the loop of \<^verbatim>\<open>generate\<close>: an exception raised anywhere in the
  body leaves the body; there is no handler.\<close>

definition generate_dataset ::
  "env \<Rightarrow> generator \<Rightarrow> pyval \<Rightarrow> pyval \<Rightarrow> world \<Rightarrow> error option \<times> world" where
  "generate_dataset e g dataset_name dataset_config w =
     (case build_table e g dataset_config w of
        (Inl err, w') \<Rightarrow> (Some err, w')
      | (Inr b, w') \<Rightarrow> write_output e dataset_name b w')"

text \<open>The loop itself: an exception that leaves the body leaves the loop and
  \<^verbatim>\<open>generate\<close>, since nothing catches it.\<close>

fun generate_loop ::
  "env \<Rightarrow> generator \<Rightarrow> pydict \<Rightarrow> world \<Rightarrow> error option \<times> world" where
  "generate_loop e g [] w = (None, w)"
| "generate_loop e g ((dataset_name, dataset_config) # rest) w =
     (case generate_dataset e g dataset_name dataset_config w of
        (Some err, w') \<Rightarrow> (Some err, w')
      | (None, w') \<Rightarrow> generate_loop e g rest w')"

text \<open>\<^verbatim>\<open>for dataset_name, dataset_config in self.config.get('datasets', {}).items():\<close>\<close>

definition generate :: "env \<Rightarrow> generator \<Rightarrow> world \<Rightarrow> error option \<times> world" where
  "generate e g w =
     (case py_get (config g) ''datasets'' (PDict []) of
        Inl err \<Rightarrow> (Some err, w)
      | Inr (PDict datasets) \<Rightarrow> generate_loop e g datasets w
      | Inr _ \<Rightarrow> (Some AttributeError, w))"

text \<open>The datasets whose iteration of the loop is entered, in the order in which
  they are entered: the loop goes on to the next dataset only when the body of the
  current one has returned.\<close>

fun attempted :: "env \<Rightarrow> generator \<Rightarrow> pydict \<Rightarrow> world \<Rightarrow> pyval list" where
  "attempted e g [] w = []"
| "attempted e g ((dataset_name, dataset_config) # rest) w =
     dataset_name #
       (case generate_dataset e g dataset_name dataset_config w of
          (Some err, w') \<Rightarrow> []
        | (None, w') \<Rightarrow> attempted e g rest w')"

text \<open>
  \<^verbatim>\<open>
  generator = DataGenerator()
  generator.generate()
  \<close>
\<close>

definition main :: "env \<Rightarrow> string \<Rightarrow> world \<Rightarrow> error option \<times> world" where
  "main e config_path w =
     (case init e config_path of
        Inl err \<Rightarrow> (Some err, w)
      | Inr g \<Rightarrow> generate e g w)"

section \<open>The merge on a store of dictionary objects\<close>






section \<open>Notions the properties are stated with\<close>

text \<open>The keys of a dictionary after storing a key: a key equal to one already
  there adds nothing, a new one comes last.\<close>

definition insert_key :: "pyval list \<Rightarrow> pyval \<Rightarrow> pyval list" where
  "insert_key ks k = (if list_ex (\<lambda>k'. key_eq k' k) ks then ks else ks @ [k])"

definition insert_keys :: "pyval list \<Rightarrow> pyval list \<Rightarrow> pyval list" where
  "insert_keys ks new = foldl insert_key ks new"

text \<open>The declared fields of a dataset, and their names.\<close>

definition declared_fields :: "pyval \<Rightarrow> pyval list" where
  "declared_fields dataset_config =
     (case py_get dataset_config ''fields'' (PList []) of
        Inr fs \<Rightarrow> (case py_iter fs of Inr field_list \<Rightarrow> field_list | Inl _ \<Rightarrow> [])
      | Inl _ \<Rightarrow> [])"

definition field_names :: "pyval list \<Rightarrow> pyval list" where
  "field_names field_list =
     concat (map (\<lambda>f. case py_getitem f ''name'' of Inr n \<Rightarrow> [n] | Inl _ \<Rightarrow> []) field_list)"

text \<open>The four metadata field names the loop body has a branch for.\<close>

definition recognized :: "pyval \<Rightarrow> bool" where
  "recognized m =
     (m = PStr ''created_at'' \<or> m = PStr ''modified_at''
      \<or> m = PStr ''created_by'' \<or> m = PStr ''modified_by'')"

definition enabled :: "pyval \<Rightarrow> bool" where
  "enabled mc = (case py_get mc ''enable'' (PBool False) of Inr en \<Rightarrow> truthy en | Inl _ \<Rightarrow> False)"

definition listed_fields :: "pyval \<Rightarrow> pyval list" where
  "listed_fields mc =
     (case py_get mc ''fields'' (PList []) of
        Inr fs \<Rightarrow> (case py_iter fs of Inr ms \<Rightarrow> ms | Inl _ \<Rightarrow> [])
      | Inl _ \<Rightarrow> [])"

text \<open>A field the loop body can turn into a column: a dictionary with a hashable
  \<open>name\<close> and a \<open>type\<close> that is the name of an attribute of the Faker object.\<close>

definition field_ok :: "env \<Rightarrow> pyval \<Rightarrow> bool" where
  "field_ok e f =
     (case py_getitem f ''name'' of
        Inl _ \<Rightarrow> False
      | Inr n \<Rightarrow>
          hashable n \<and>
          (case py_getitem f ''type'' of
             Inr (PStr t) \<Rightarrow> (case registry e t of Inr p \<Rightarrow> True | Inl _ \<Rightarrow> False)
           | _ \<Rightarrow> False))"

text \<open>The \<open>fields\<close> of a metadata configuration can be iterated.\<close>

definition fields_iterable :: "pyval \<Rightarrow> bool" where
  "fields_iterable mc =
     (case py_get mc ''fields'' (PList []) of
        Inr fs \<Rightarrow> (case py_iter fs of Inr ms \<Rightarrow> True | Inl _ \<Rightarrow> False)
      | Inl _ \<Rightarrow> False)"

text \<open>The table with the given column names and no rows.\<close>

definition empty_columns :: "pyval list \<Rightarrow> table" where
  "empty_columns ks = map (\<lambda>k. (k, [])) ks"

text \<open>A column as the metadata branch for field \<open>m\<close> writes it, with \<open>n\<close> rows,
  starting from clock reading \<open>t\<close> or random state \<open>r\<close>.\<close>

definition metadata_column :: "env \<Rightarrow> pyval \<Rightarrow> nat \<Rightarrow> nat \<Rightarrow> nat \<Rightarrow> pyval list option" where
  "metadata_column e m n t r =
     (if m = PStr ''created_at'' \<or> m = PStr ''modified_at''
      then Some (map (\<lambda>i. PTime (clock e (t + i))) [0..<n])
      else if m = PStr ''created_by'' \<or> m = PStr ''modified_by''
      then (case call_times n (fake_name e) r of (Inr col, _) \<Rightarrow> Some col | (Inl _, _) \<Rightarrow> None)
      else None)"

section \<open>Concrete inputs\<close>

text \<open>A Faker object with two producers, \<open>name\<close> and \<open>zip\<close>, no configuration file,
  and a file system that accepts every directory and file.\<close>

definition ex_env :: env where
  "ex_env =
     \<lparr>registry = (\<lambda>s. if s = ''name'' then Inr (\<lambda>r. (Inr (PStr ''Ann''), Suc r))
                     else if s = ''zip'' then Inr (\<lambda>r. (Inr (PInt (int r)), Suc r))
                     else Inl AttributeError),
      clock = (\<lambda>i. 1000 + i),
      render = (\<lambda>v. case v of PInt n \<Rightarrow> (if n = 0 then ''0'' else if n = 2 then ''2'' else ''?'')
                      | _ \<Rightarrow> ''?''),
      config_files = (\<lambda>p. if p = ''empty.yml'' then Some (Inr PNone) else None),
      creatable = (\<lambda>d. True),
      writable = (\<lambda>p. True)\<rparr>"

definition ex_world :: world where
  "ex_world = \<lparr>rng = 0, ticks = 0, dirs = [], files = [], console = []\<rparr>"

definition field_spec :: "string \<Rightarrow> string \<Rightarrow> pyval" where
  "field_spec n t = PDict [(PStr ''name'', PStr n), (PStr ''type'', PStr t)]"

text \<open>\<^verbatim>\<open>{fields: [{name: x, type: nope}]}\<close>: no attribute \<open>nope\<close>.\<close>

definition ex_unknown_type :: pyval where
  "ex_unknown_type = PDict [(PStr ''fields'', PList [field_spec ''x'' ''nope''])]"

text \<open>\<^verbatim>\<open>{rows: 2, fields: [{name: y, type: zip}]}\<close>\<close>

definition ex_plain :: pyval where
  "ex_plain = PDict [(PStr ''rows'', PInt 2), (PStr ''fields'', PList [field_spec ''y'' ''zip''])]"

text \<open>\<^verbatim>\<open>{rows: -1, fields: [{name: x, type: zip}]}\<close>\<close>

definition ex_negative_rows :: pyval where
  "ex_negative_rows =
     PDict [(PStr ''rows'', PInt (- 1)), (PStr ''fields'', PList [field_spec ''x'' ''zip''])]"

text \<open>A declared field named like a metadata field:
  \<^verbatim>\<open>{rows: 2, fields: [{name: created_at, type: name}, {name: y, type: zip}],
    metadata: {enable: true, fields: [created_at, bogus]}}\<close>\<close>

definition ex_collision :: pyval where
  "ex_collision =
     PDict [(PStr ''rows'', PInt 2),
            (PStr ''fields'', PList [field_spec ''created_at'' ''name'', field_spec ''y'' ''zip'']),
            (PStr ''metadata'',
             PDict [(PStr ''enable'', PBool True),
                    (PStr ''fields'', PList [PStr ''created_at'', PStr ''bogus''])])]"

text \<open>\<^verbatim>\<open>{rows: 2, fields: [{name: y, type: zip}], output: {format: json}}\<close>\<close>

definition ex_json :: pyval where
  "ex_json =
     PDict [(PStr ''rows'', PInt 2), (PStr ''fields'', PList [field_spec ''y'' ''zip'']),
            (PStr ''output'', PDict [(PStr ''format'', PStr ''json'')])]"

definition ex_generator :: "pydict \<Rightarrow> generator" where
  "ex_generator datasets =
     \<lparr>config = PDict [(PStr ''datasets'', PDict datasets)],
      global_metadata = PDict [], global_output = PDict []\<rparr>"

text \<open>Two datasets, the first of which names an attribute Faker does not have.\<close>

definition ex_failing_first :: pydict where
  "ex_failing_first = [(PStr ''a'', ex_unknown_type), (PStr ''b'', ex_plain)]"

text \<open>Metadata columns after one field:
  \<^verbatim>\<open>{rows: 1, fields: [{name: y, type: zip}],
    metadata: {enable: true, fields: [created_by, bogus, created_at]}}\<close>\<close>

definition ex_metadata :: pyval where
  "ex_metadata =
     PDict [(PStr ''rows'', PInt 1),
            (PStr ''fields'', PList [field_spec ''y'' ''zip'']),
            (PStr ''metadata'',
             PDict [(PStr ''enable'', PBool True),
                    (PStr ''fields'', PList [PStr ''created_by'', PStr ''bogus'', PStr ''created_at''])])]"

text \<open>\<^verbatim>\<open>{rows: 0, fields: [{name: x, type: zip}],
    metadata: {enable: true, fields: [created_at]}}\<close>\<close>

definition ex_zero_rows :: pyval where
  "ex_zero_rows =
     PDict [(PStr ''rows'', PInt 0),
            (PStr ''fields'', PList [field_spec ''x'' ''zip'']),
            (PStr ''metadata'',
             PDict [(PStr ''enable'', PBool True),
                    (PStr ''fields'', PList [PStr ''created_at''])])]"

text \<open>An unsupported format together with an unknown field type:
  \<^verbatim>\<open>{fields: [{name: x, type: nope}], output: {format: json}}\<close>\<close>

definition ex_json_unknown :: pyval where
  "ex_json_unknown =
     PDict [(PStr ''fields'', PList [field_spec ''x'' ''nope'']),
            (PStr ''output'', PDict [(PStr ''format'', PStr ''json'')])]"

text \<open>No rows together with an unknown field type:
  \<^verbatim>\<open>{rows: 0, fields: [{name: x, type: nope}]}\<close>\<close>

definition ex_zero_rows_unknown :: pyval where
  "ex_zero_rows_unknown =
     PDict [(PStr ''rows'', PInt 0), (PStr ''fields'', PList [field_spec ''x'' ''nope''])]"

section \<open>Facts about dictionaries\<close>

lemma key_eq_refl [simp]: "key_eq k k"
  by (simp add: key_eq_def)

lemma key_eq_PStr [simp]: "key_eq (PStr a) (PStr b) = (a = b)"
  by (simp add: key_eq_def norm_key_def)

lemma key_eq_sym: "key_eq a b = key_eq b a"
  by (auto simp: key_eq_def)

lemma key_eq_trans: "key_eq a b \<Longrightarrow> key_eq b c \<Longrightarrow> key_eq a c"
  by (simp add: key_eq_def)

lemma dict_lookup_None_iff:
  "(dict_lookup d k = None) = (\<forall>p \<in> set d. \<not> key_eq (fst p) k)"
  by (induction d) (auto split: if_splits)

lemma dict_lookup_set:
  "dict_lookup (dict_set d k v) k' = (if key_eq k k' then Some v else dict_lookup d k')"
proof (induction d)
  case Nil
  then show ?case by simp
next
  case (Cons p d)
  obtain a b where p: "p = (a, b)" by (cases p)
  show ?case
  proof (cases "key_eq a k")
    case True
    then have "key_eq a k' = key_eq k k'"
      by (auto simp: key_eq_def)
    with True show ?thesis by (simp add: p)
  next
    case False
    then have "key_eq a k' \<Longrightarrow> \<not> key_eq k k'"
      by (auto simp: key_eq_def)
    with False show ?thesis by (auto simp: p Cons.IH)
  qed
qed

lemma keys_dict_set:
  "map fst (dict_set d k v) =
     (if dict_lookup d k = None then map fst d @ [k] else map fst d)"
  by (induction d) (auto split: if_splits)

lemma fresh_key:
  assumes "norm_key a \<notin> set (map norm_key (map fst l))" and "k \<in> set (map fst l)"
  shows "\<not> key_eq a k"
proof
  assume "key_eq a k"
  then have "norm_key a = norm_key k" by (simp add: key_eq_def)
  moreover from assms(2) have "norm_key k \<in> set (map norm_key (map fst l))" by force
  ultimately show False using assms(1) by simp
qed

lemma fresh_key_lookup:
  assumes "norm_key a \<notin> set (map norm_key (map fst l))" and "key_eq a k"
  shows "dict_lookup l k = None"
proof -
  have "\<not> key_eq (fst p) k" if "p \<in> set l" for p
  proof
    assume "key_eq (fst p) k"
    with assms(2) have "key_eq a (fst p)" by (simp add: key_eq_def)
    moreover from that have "fst p \<in> set (map fst l)" by simp
    ultimately show False using fresh_key [OF assms(1)] by blast
  qed
  then show ?thesis by (simp add: dict_lookup_None_iff)
qed

lemma dict_lookup_update:
  "distinct (map norm_key (map fst l)) \<Longrightarrow>
   dict_lookup (dict_update g l) k =
     (case dict_lookup l k of Some v \<Rightarrow> Some v | None \<Rightarrow> dict_lookup g k)"
proof (induction l arbitrary: g)
  case Nil
  then show ?case by simp
next
  case (Cons p l)
  obtain a b where p: "p = (a, b)" by (cases p)
  from Cons.prems have d: "distinct (map norm_key (map fst l))"
    and fresh: "norm_key a \<notin> set (map norm_key (map fst l))" by (simp_all add: p)
  show ?case
  proof (cases "key_eq a k")
    case True
    with fresh have "dict_lookup l k = None" by (rule fresh_key_lookup)
    with True show ?thesis by (simp add: p Cons.IH [OF d] dict_lookup_set)
  next
    case False
    then show ?thesis by (simp add: p Cons.IH [OF d] dict_lookup_set split: option.splits)
  qed
qed

lemma keys_dict_update:
  "distinct (map norm_key (map fst l)) \<Longrightarrow>
   map fst (dict_update g l) = map fst g @ filter (\<lambda>k. dict_lookup g k = None) (map fst l)"
proof (induction l arbitrary: g)
  case Nil
  then show ?case by simp
next
  case (Cons p l)
  obtain a b where p: "p = (a, b)" by (cases p)
  from Cons.prems have d: "distinct (map norm_key (map fst l))"
    and fresh: "norm_key a \<notin> set (map norm_key (map fst l))" by (simp_all add: p)
  have same: "filter (\<lambda>k. dict_lookup (dict_set g a b) k = None) (map fst l)
            = filter (\<lambda>k. dict_lookup g k = None) (map fst l)"
  proof (rule filter_cong [OF refl])
    fix k assume "k \<in> set (map fst l)"
    with fresh have "\<not> key_eq a k" by (rule fresh_key)
    then show "(dict_lookup (dict_set g a b) k = None) = (dict_lookup g k = None)"
      by (simp add: dict_lookup_set)
  qed
  show ?case
    by (simp add: p Cons.IH [OF d] same keys_dict_set)
qed

lemma merge_configs_dicts:
  "merge_configs (PDict g) (PDict l) = Inr (PDict (dict_update g l))"
  by (simp add: merge_configs_def py_copy_def update_items_def)

section \<open>Facts about building a table\<close>

lemma call_times_length:
  "call_times n p r = (Inr col, r') \<Longrightarrow> length col = n"
  by (induction n arbitrary: col r) (auto split: prod.splits sum.splits)

lemma dict_set_values:
  "(k', c) \<in> set (dict_set d k v) \<Longrightarrow> c = v \<or> (k', c) \<in> set d"
  by (induction d) (auto split: if_splits)

lemma generate_field_frame:
  "generate_field e rows f d w = (res, w') \<Longrightarrow>
   ticks w' = ticks w \<and> dirs w' = dirs w \<and> files w' = files w \<and> console w' = console w"
  by (auto simp: generate_field_def split: sum.splits prod.splits if_splits)

lemma generate_fields_frame:
  "generate_fields e rows fs d w = (res, w') \<Longrightarrow>
   dirs w' = dirs w \<and> files w' = files w \<and> console w' = console w"
proof (induction fs arbitrary: d w)
  case Nil
  then show ?case by simp
next
  case (Cons f fs)
  obtain r1 w1 where s: "generate_field e rows f d w = (r1, w1)" by (cases "generate_field e rows f d w")
  note fr = generate_field_frame [OF s]
  show ?case
  proof (cases r1)
    case (Inl err)
    with Cons.prems s fr show ?thesis by simp
  next
    case (Inr d1)
    with Cons.prems s have "generate_fields e rows fs d1 w1 = (res, w')" by simp
    from Cons.IH [OF this] fr show ?thesis by simp
  qed
qed

lemma generate_metadata_field_cases:
  obtains (stamp) n where
      "metadata_field = PStr ''created_at'' \<or> metadata_field = PStr ''modified_at''"
      "py_range rows = Inr n"
      "generate_metadata_field e rows metadata_field d w =
         (Inr (dict_set d metadata_field (map (\<lambda>i. PTime (clock e (ticks w + i))) [0..<n])),
          w\<lparr>ticks := ticks w + n\<rparr>)"
  | (author) n col r where
      "\<not> (metadata_field = PStr ''created_at'' \<or> metadata_field = PStr ''modified_at'')"
      "metadata_field = PStr ''created_by'' \<or> metadata_field = PStr ''modified_by''"
      "py_range rows = Inr n"
      "call_times n (fake_name e) (rng w) = (Inr col, r)"
      "generate_metadata_field e rows metadata_field d w =
         (Inr (dict_set d metadata_field col), w\<lparr>rng := r\<rparr>)"
  | (other) "\<not> recognized metadata_field"
      "generate_metadata_field e rows metadata_field d w = (Inr d, w)"
  | (failed) err w' where
      "recognized metadata_field"
      "generate_metadata_field e rows metadata_field d w = (Inl err, w')"
      "ticks w' = ticks w" "dirs w' = dirs w" "files w' = files w" "console w' = console w"
proof -
  let ?A = "metadata_field = PStr ''created_at'' \<or> metadata_field = PStr ''modified_at''"
  let ?B = "metadata_field = PStr ''created_by'' \<or> metadata_field = PStr ''modified_by''"
  have rec: "recognized metadata_field = (?A \<or> ?B)"
    unfolding recognized_def by blast
  show ?thesis
  proof (cases ?A)
    case A: True
    show ?thesis
    proof (cases "py_range rows")
      case (Inl err)
      have "generate_metadata_field e rows metadata_field d w = (Inl err, w)"
        unfolding generate_metadata_field_def using A Inl by simp
      with A rec show ?thesis by (intro failed [of err w]) simp_all
    next
      case (Inr n)
      have "generate_metadata_field e rows metadata_field d w =
         (Inr (dict_set d metadata_field (map (\<lambda>i. PTime (clock e (ticks w + i))) [0..<n])),
          w\<lparr>ticks := ticks w + n\<rparr>)"
        unfolding generate_metadata_field_def using A Inr by simp
      with A Inr show ?thesis by (rule stamp)
    qed
  next
    case A: False
    show ?thesis
    proof (cases ?B)
      case B: True
      show ?thesis
      proof (cases "py_range rows")
        case (Inl err)
        have "generate_metadata_field e rows metadata_field d w = (Inl err, w)"
          unfolding generate_metadata_field_def using A B Inl by simp
        with B rec show ?thesis by (intro failed [of err w]) simp_all
      next
        case (Inr n)
        obtain res r where c: "call_times n (fake_name e) (rng w) = (res, r)"
          by (cases "call_times n (fake_name e) (rng w)")
        show ?thesis
        proof (cases res)
          case (Inl err)
          have "generate_metadata_field e rows metadata_field d w = (Inl err, w\<lparr>rng := r\<rparr>)"
            unfolding generate_metadata_field_def using A B Inr c Inl by simp
          with B rec show ?thesis by (intro failed [of err "w\<lparr>rng := r\<rparr>"]) simp_all
        next
          case (Inr col)
          have "generate_metadata_field e rows metadata_field d w =
              (Inr (dict_set d metadata_field col), w\<lparr>rng := r\<rparr>)"
            unfolding generate_metadata_field_def using A B \<open>py_range rows = Inr n\<close> c Inr by simp
          with A B \<open>py_range rows = Inr n\<close> c Inr show ?thesis by (intro author [of n col r]) simp_all
        qed
      qed
    next
      case B: False
      have "generate_metadata_field e rows metadata_field d w = (Inr d, w)"
        unfolding generate_metadata_field_def using A B by simp
      with A B rec show ?thesis by (intro other) simp_all
    qed
  qed
qed

lemma generate_metadata_field_frame:
  assumes "generate_metadata_field e rows m d w = (res, w')"
  shows "dirs w' = dirs w \<and> files w' = files w \<and> console w' = console w"
  by (rule generate_metadata_field_cases
        [where metadata_field = m and rows = rows and e = e and d = d and w = w])
     (use assms in auto)

lemma generate_metadata_frame:
  "generate_metadata e rows ms d w = (res, w') \<Longrightarrow>
   dirs w' = dirs w \<and> files w' = files w \<and> console w' = console w"
proof (induction ms arbitrary: d w)
  case Nil
  then show ?case by simp
next
  case (Cons m ms)
  obtain r1 w1 where s: "generate_metadata_field e rows m d w = (r1, w1)"
    by (cases "generate_metadata_field e rows m d w")
  note fr = generate_metadata_field_frame [OF s]
  show ?case
  proof (cases r1)
    case (Inl err)
    with Cons.prems s fr show ?thesis by simp
  next
    case (Inr d1)
    with Cons.prems s have "generate_metadata e rows ms d1 w1 = (res, w')" by simp
    from Cons.IH [OF this] fr show ?thesis by simp
  qed
qed

lemma metadata_columns_InrE:
  assumes "metadata_columns e rows mc d w = (Inr d', w')"
  obtains (disabled) "\<not> enabled mc" "d' = d" "w' = w"
  | (enabled) "enabled mc" "generate_metadata e rows (listed_fields mc) d w = (Inr d', w')"
proof (cases "py_get mc ''enable'' (PBool False)")
  case (Inl err)
  with assms show ?thesis by (simp add: metadata_columns_def)
next
  case en: (Inr en)
  show ?thesis
  proof (cases "truthy en")
    case False
    with en assms have "d' = d" "w' = w" "\<not> enabled mc"
      by (simp_all add: metadata_columns_def enabled_def)
    then show ?thesis using disabled by blast
  next
    case True
    with en have e: "enabled mc" by (simp add: enabled_def)
    show ?thesis
    proof (cases "py_get mc ''fields'' (PList [])")
      case (Inl err)
      with en True assms show ?thesis by (simp add: metadata_columns_def)
    next
      case fs: (Inr fs)
      show ?thesis
      proof (cases "py_iter fs")
        case (Inl err)
        with en True fs assms show ?thesis by (simp add: metadata_columns_def)
      next
        case (Inr ms)
        with en True fs assms have "generate_metadata e rows ms d w = (Inr d', w')"
          by (simp add: metadata_columns_def)
        moreover from fs Inr have "listed_fields mc = ms" by (simp add: listed_fields_def)
        ultimately show ?thesis using e enabled by blast
      qed
    qed
  qed
qed

lemma metadata_columns_frame:
  assumes "metadata_columns e rows mc d w = (Inr d', w')"
  shows "dirs w' = dirs w \<and> files w' = files w \<and> console w' = console w"
  using assms
proof (cases rule: metadata_columns_InrE)
  case disabled
  then show ?thesis by simp
next
  case enabled
  from generate_metadata_frame [OF enabled(2)] show ?thesis .
qed

lemma build_table_InrE:
  assumes "build_table e g c w = (Inr b, w')"
  obtains lm lo fs fl d1 w1 where
    "py_get c ''rows'' (PInt 100) = Inr (num_rows b)"
    "py_get c ''metadata'' (PDict []) = Inr lm"
    "merge_configs (global_metadata g) lm = Inr (metadata_config b)"
    "py_get c ''output'' (PDict []) = Inr lo"
    "merge_configs (global_output g) lo = Inr (output_config b)"
    "py_get c ''fields'' (PList []) = Inr fs"
    "py_iter fs = Inr fl"
    "generate_fields e (num_rows b) fl [] w = (Inr d1, w1)"
    "metadata_columns e (num_rows b) (metadata_config b) d1 w1 = (Inr (data b), w')"
  using assms unfolding build_table_def
  by (auto split: sum.splits prod.splits)

lemma build_table_frame:
  assumes "build_table e g c w = (Inr b, w')"
  shows "dirs w' = dirs w \<and> files w' = files w \<and> console w' = console w"
proof -
  from assms obtain fl d1 w1 where
    f: "generate_fields e (num_rows b) fl [] w = (Inr d1, w1)" and
    m: "metadata_columns e (num_rows b) (metadata_config b) d1 w1 = (Inr (data b), w')"
    by (rule build_table_InrE)
  from generate_fields_frame [OF f] metadata_columns_frame [OF m] show ?thesis by simp
qed

lemma generate_field_InrE:
  assumes "generate_field e rows f d w = (Inr d', w')"
  obtains nm t p n col where
    "py_getitem f ''name'' = Inr nm" "py_getitem f ''type'' = Inr t"
    "py_getattr e t = Inr p" "py_range rows = Inr n"
    "call_times n p (rng w) = (Inr col, rng w')" "hashable nm"
    "d' = dict_set d nm col" "w' = w\<lparr>rng := rng w'\<rparr>"
  using assms unfolding generate_field_def
  by (auto split: sum.splits prod.splits if_splits)

lemma generate_metadata_field_recognized:
  assumes "recognized m" and "generate_metadata_field e rows m d w = (Inr d', w')"
  obtains n col where "py_range rows = Inr n"
    "metadata_column e m n (ticks w) (rng w) = Some col" "length col = n"
    "d' = dict_set d m col"
proof (rule generate_metadata_field_cases
        [where metadata_field = m and rows = rows and e = e and d = d and w = w])
  fix n
  assume a: "m = PStr ''created_at'' \<or> m = PStr ''modified_at''" "py_range rows = Inr n"
    "generate_metadata_field e rows m d w =
         (Inr (dict_set d m (map (\<lambda>i. PTime (clock e (ticks w + i))) [0..<n])),
          w\<lparr>ticks := ticks w + n\<rparr>)"
  from a(1) have "metadata_column e m n (ticks w) (rng w)
        = Some (map (\<lambda>i. PTime (clock e (ticks w + i))) [0..<n])"
    unfolding metadata_column_def by simp
  with a assms(2) show thesis by (intro that [of n]) simp_all
next
  fix n col r
  assume a: "\<not> (m = PStr ''created_at'' \<or> m = PStr ''modified_at'')"
    "m = PStr ''created_by'' \<or> m = PStr ''modified_by''"
    "py_range rows = Inr n"
    "call_times n (fake_name e) (rng w) = (Inr col, r)"
    "generate_metadata_field e rows m d w = (Inr (dict_set d m col), w\<lparr>rng := r\<rparr>)"
  from a(1,2,4) have "metadata_column e m n (ticks w) (rng w) = Some col"
    unfolding metadata_column_def by simp
  with a assms(2) call_times_length [OF a(4)] show thesis by (intro that [of n col]) simp_all
next
  assume "\<not> recognized m"
  with assms(1) show thesis by simp
next
  fix err w'' assume "generate_metadata_field e rows m d w = (Inl err, w'')"
  with assms(2) show thesis by simp
qed

lemma generate_metadata_field_unrecognized:
  assumes "\<not> recognized m"
  shows "generate_metadata_field e rows m d w = (Inr d, w)"
  by (rule generate_metadata_field_cases
        [where metadata_field = m and rows = rows and e = e and d = d and w = w])
     (use assms in \<open>auto simp: recognized_def\<close>)

lemma generate_field_cols:
  assumes "generate_field e rows f d w = (Inr d', w')"
    and "\<forall>p\<in>set d. py_range rows = Inr (length (snd p))"
  shows "\<forall>p\<in>set d'. py_range rows = Inr (length (snd p))"
proof -
  from assms(1) obtain nm p n col where n: "py_range rows = Inr n"
    and c: "call_times n p (rng w) = (Inr col, rng w')" and d': "d' = dict_set d nm col"
    by (rule generate_field_InrE)
  from call_times_length [OF c] n have "py_range rows = Inr (length col)" by simp
  with assms(2) show ?thesis unfolding d' by (auto dest: dict_set_values)
qed

lemma generate_fields_cols:
  "generate_fields e rows fs d w = (Inr d', w') \<Longrightarrow>
   \<forall>p\<in>set d. py_range rows = Inr (length (snd p)) \<Longrightarrow>
   \<forall>p\<in>set d'. py_range rows = Inr (length (snd p))"
proof (induction fs arbitrary: d w)
  case Nil
  then show ?case by simp
next
  case (Cons f fs)
  from Cons.prems(1) obtain d1 w1 where s: "generate_field e rows f d w = (Inr d1, w1)"
    and r: "generate_fields e rows fs d1 w1 = (Inr d', w')"
    by (auto split: prod.splits sum.splits)
  from generate_field_cols [OF s Cons.prems(2)] Cons.IH [OF r] show ?case by blast
qed

lemma generate_metadata_field_cols:
  assumes "generate_metadata_field e rows m d w = (Inr d', w')"
    and "\<forall>p\<in>set d. py_range rows = Inr (length (snd p))"
  shows "\<forall>p\<in>set d'. py_range rows = Inr (length (snd p))"
proof (cases "recognized m")
  case True
  from True assms(1) obtain n col where "py_range rows = Inr n" "length col = n"
    "d' = dict_set d m col" by (rule generate_metadata_field_recognized)
  with assms(2) show ?thesis by (auto dest: dict_set_values)
next
  case False
  with assms show ?thesis by (simp add: generate_metadata_field_unrecognized)
qed

lemma generate_metadata_cols:
  "generate_metadata e rows ms d w = (Inr d', w') \<Longrightarrow>
   \<forall>p\<in>set d. py_range rows = Inr (length (snd p)) \<Longrightarrow>
   \<forall>p\<in>set d'. py_range rows = Inr (length (snd p))"
proof (induction ms arbitrary: d w)
  case Nil
  then show ?case by simp
next
  case (Cons m ms)
  from Cons.prems(1) obtain d1 w1 where s: "generate_metadata_field e rows m d w = (Inr d1, w1)"
    and r: "generate_metadata e rows ms d1 w1 = (Inr d', w')"
    by (auto split: prod.splits sum.splits)
  from generate_metadata_field_cols [OF s Cons.prems(2)] Cons.IH [OF r] show ?case by blast
qed

lemma metadata_columns_cols:
  assumes "metadata_columns e rows mc d w = (Inr d', w')"
    and "\<forall>p\<in>set d. py_range rows = Inr (length (snd p))"
  shows "\<forall>p\<in>set d'. py_range rows = Inr (length (snd p))"
  using assms(1)
proof (cases rule: metadata_columns_InrE)
  case disabled
  with assms(2) show ?thesis by simp
next
  case enabled
  from generate_metadata_cols [OF enabled(2) assms(2)] show ?thesis .
qed

lemma build_table_cols:
  assumes "build_table e g c w = (Inr b, w')"
  shows "\<forall>p\<in>set (data b). py_range (num_rows b) = Inr (length (snd p))"
proof -
  from assms obtain fl d1 w1 where
    f: "generate_fields e (num_rows b) fl [] w = (Inr d1, w1)" and
    m: "metadata_columns e (num_rows b) (metadata_config b) d1 w1 = (Inr (data b), w')"
    by (rule build_table_InrE)
  from generate_fields_cols [OF f] have "\<forall>p\<in>set d1. py_range (num_rows b) = Inr (length (snd p))"
    by simp
  from metadata_columns_cols [OF m this] show ?thesis .
qed

lemma data_frame_equal_lengths:
  assumes "\<forall>p\<in>set d. length (snd p) = n"
  shows "data_frame d = Inr d"
proof (cases d)
  case Nil
  then show ?thesis by (simp add: data_frame_def)
next
  case (Cons p ps)
  obtain k col where p: "p = (k, col)" by (cases p)
  from assms Cons p have "length col = n" by simp
  moreover from assms Cons have "\<forall>q\<in>set ps. length (snd q) = n" by simp
  ultimately have "list_all (\<lambda>(k', col'). length col' = length col) ps"
    by (auto simp: list_all_iff)
  with Cons p show ?thesis by (simp add: data_frame_def)
qed

lemma build_table_data_frame:
  assumes "build_table e g c w = (Inr b, w')"
  shows "data_frame (data b) = Inr (data b)"
proof (cases "data b")
  case Nil
  then show ?thesis by (simp add: data_frame_def)
next
  case (Cons p ps)
  with build_table_cols [OF assms] obtain n where n: "py_range (num_rows b) = Inr n" by auto
  with build_table_cols [OF assms] have "\<forall>p\<in>set (data b). length (snd p) = n" by auto
  then show ?thesis by (rule data_frame_equal_lengths)
qed

section \<open>Concrete runs\<close>

lemma ex_plain_built:
  "build_table ex_env (ex_generator []) ex_plain ex_world =
     (Inr \<lparr>data = [(PStr ''y'', [PInt 0, PInt 1])], num_rows = PInt 2,
           metadata_config = PDict [], output_config = PDict []\<rparr>,
      ex_world\<lparr>rng := 2\<rparr>)"
  by code_simp

lemma ex_negative_rows_built:
  "build_table ex_env (ex_generator []) ex_negative_rows ex_world =
     (Inr \<lparr>data = [(PStr ''x'', [])], num_rows = PInt (- 1),
           metadata_config = PDict [], output_config = PDict []\<rparr>,
      ex_world)"
  by code_simp

section \<open>Facts about the loop over the datasets\<close>

lemma generate_loop_append:
  "generate_loop e g ds1 w = (None, w1) \<Longrightarrow>
   generate_loop e g (ds1 @ ds2) w = generate_loop e g ds2 w1"
proof (induction ds1 arbitrary: w)
  case Nil
  then show ?case by simp
next
  case (Cons p ds1)
  obtain n c where p: "p = (n, c)" by (cases p)
  from Cons.prems obtain w0 where s: "generate_dataset e g n c w = (None, w0)"
    and r: "generate_loop e g ds1 w0 = (None, w1)"
    by (auto simp: p split: prod.splits option.splits)
  from Cons.IH [OF r] s show ?case by (simp add: p)
qed

lemma attempted_append:
  "generate_loop e g ds1 w = (None, w1) \<Longrightarrow>
   attempted e g (ds1 @ ds2) w = map fst ds1 @ attempted e g ds2 w1"
proof (induction ds1 arbitrary: w)
  case Nil
  then show ?case by simp
next
  case (Cons p ds1)
  obtain n c where p: "p = (n, c)" by (cases p)
  from Cons.prems obtain w0 where s: "generate_dataset e g n c w = (None, w0)"
    and r: "generate_loop e g ds1 w0 = (None, w1)"
    by (auto simp: p split: prod.splits option.splits)
  from Cons.IH [OF r] s show ?case by (simp add: p)
qed

lemma attempted_prefix:
  "\<exists>rest. map fst ds = attempted e g ds w @ rest"
proof (induction ds arbitrary: w)
  case Nil
  then show ?case by simp
next
  case (Cons p ds)
  obtain n c where p: "p = (n, c)" by (cases p)
  obtain r w0 where s: "generate_dataset e g n c w = (r, w0)"
    by (cases "generate_dataset e g n c w")
  show ?case
  proof (cases r)
    case None
    from Cons.IH [of w0] obtain rest where "map fst ds = attempted e g ds w0 @ rest" ..
    with s None show ?thesis by (simp add: p)
  next
    case (Some err)
    with s show ?thesis by (simp add: p)
  qed
qed

lemma generate_datasets:
  "py_get (config g) ''datasets'' (PDict []) = Inr (PDict ds) \<Longrightarrow>
   generate e g w = generate_loop e g ds w"
  by (simp add: generate_def)

lemma ex_failing_first_run:
  "generate ex_env (ex_generator ex_failing_first) ex_world = (Some AttributeError, ex_world)"
  by code_simp

lemma ex_failing_first_attempted:
  "attempted ex_env (ex_generator ex_failing_first) ex_failing_first ex_world = [PStr ''a'']"
  by code_simp

section \<open>Facts about writing a table\<close>

lemma write_output_unsupported:
  assumes df: "data_frame (data b) = Inr (data b)"
    and dir: "py_get (output_config b) ''directory'' (PStr ''output/'') = Inr (PStr dir)"
    and ok: "creatable e dir"
    and fmt: "py_get (output_config b) ''format'' (PStr ''csv'') = Inr fmt"
    and ncsv: "fmt \<noteq> PStr ''csv''" and ntsv: "fmt \<noteq> PStr ''tsv''"
  shows "write_output e n b w =
    (None, w\<lparr>console := console w @
               [Line (progress_line e (num_rows b) n), Preview (head10 (data b)),
                Line (unsupported_line e fmt)],
             dirs := List.insert dir (dirs w)\<rparr>)"
  using assms by (simp add: write_output_def makedirs_def Let_def)

lemma ex_json_built:
  "build_table ex_env (ex_generator []) ex_json ex_world =
     (Inr \<lparr>data = [(PStr ''y'', [PInt 0, PInt 1])], num_rows = PInt 2,
           metadata_config = PDict [],
           output_config = PDict [(PStr ''format'', PStr ''json'')]\<rparr>,
      ex_world\<lparr>rng := 2\<rparr>)"
  by code_simp

section \<open>Facts about the store of dictionary objects\<close>



section \<open>Facts about the order of columns\<close>

lemma dict_lookup_None_list_ex:
  "(dict_lookup d k = None) = (\<not> list_ex (\<lambda>k'. key_eq k' k) (map fst d))"
  by (induction d) (auto split: if_splits)

lemma keys_dict_set_insert_key:
  "map fst (dict_set d k v) = insert_key (map fst d) k"
  by (simp add: keys_dict_set insert_key_def dict_lookup_None_list_ex)

lemma insert_keys_Nil [simp]: "insert_keys ks [] = ks"
  by (simp add: insert_keys_def)

lemma insert_keys_Cons [simp]:
  "insert_keys ks (k # new) = insert_keys (insert_key ks k) new"
  by (simp add: insert_keys_def)

lemma insert_keys_append:
  "insert_keys ks (a @ b) = insert_keys (insert_keys ks a) b"
  by (simp add: insert_keys_def)

lemma insert_keys_distinct:
  "distinct (map norm_key (ks @ new)) \<Longrightarrow> insert_keys ks new = ks @ new"
proof (induction new arbitrary: ks)
  case Nil
  then show ?case by simp
next
  case (Cons k new)
  from Cons.prems have "norm_key k \<notin> norm_key ` set ks" by auto
  then have "\<not> list_ex (\<lambda>k'. key_eq k' k) ks"
    unfolding list_ex_iff key_eq_def by (metis imageI)
  then have i: "insert_key ks k = ks @ [k]" by (simp add: insert_key_def)
  from Cons.prems have "distinct (map norm_key ((ks @ [k]) @ new))" by simp
  from Cons.IH [OF this] i show ?case by simp
qed

lemma generate_fields_keys:
  "generate_fields e rows fs d w = (Inr d', w') \<Longrightarrow>
   map fst d' = insert_keys (map fst d) (field_names fs)"
proof (induction fs arbitrary: d w)
  case Nil
  then show ?case by (simp add: field_names_def)
next
  case (Cons f fs)
  from Cons.prems obtain d1 w1 where s: "generate_field e rows f d w = (Inr d1, w1)"
    and r: "generate_fields e rows fs d1 w1 = (Inr d', w')"
    by (auto split: prod.splits sum.splits)
  from s obtain nm col where n: "py_getitem f ''name'' = Inr nm" and d1: "d1 = dict_set d nm col"
    by (rule generate_field_InrE)
  from n have "field_names (f # fs) = nm # field_names fs" by (simp add: field_names_def)
  with Cons.IH [OF r] d1 show ?case by (simp add: keys_dict_set_insert_key)
qed

lemma generate_metadata_keys:
  "generate_metadata e rows ms d w = (Inr d', w') \<Longrightarrow>
   map fst d' = insert_keys (map fst d) (filter recognized ms)"
proof (induction ms arbitrary: d w)
  case Nil
  then show ?case by simp
next
  case (Cons m ms)
  from Cons.prems obtain d1 w1 where s: "generate_metadata_field e rows m d w = (Inr d1, w1)"
    and r: "generate_metadata e rows ms d1 w1 = (Inr d', w')"
    by (auto split: prod.splits sum.splits)
  show ?case
  proof (cases "recognized m")
    case True
    from True s obtain col where "d1 = dict_set d m col"
      by (rule generate_metadata_field_recognized)
    with Cons.IH [OF r] True show ?thesis by (simp add: keys_dict_set_insert_key)
  next
    case False
    with s have "d1 = d" by (simp add: generate_metadata_field_unrecognized)
    with Cons.IH [OF r] False show ?thesis by simp
  qed
qed

lemma metadata_columns_keys:
  assumes "metadata_columns e rows mc d w = (Inr d', w')"
  shows "map fst d' =
    insert_keys (map fst d) (if enabled mc then filter recognized (listed_fields mc) else [])"
  using assms
proof (cases rule: metadata_columns_InrE)
  case disabled
  then show ?thesis by simp
next
  case enabled
  from generate_metadata_keys [OF enabled(2)] enabled(1) show ?thesis by simp
qed

lemma build_table_keys:
  assumes "build_table e g c w = (Inr b, w')"
  shows "map fst (data b) =
    insert_keys [] (field_names (declared_fields c)
      @ (if enabled (metadata_config b)
         then filter recognized (listed_fields (metadata_config b)) else []))"
proof -
  from assms obtain fs fl d1 w1 where
    a: "py_get c ''fields'' (PList []) = Inr fs" and i: "py_iter fs = Inr fl" and
    f: "generate_fields e (num_rows b) fl [] w = (Inr d1, w1)" and
    m: "metadata_columns e (num_rows b) (metadata_config b) d1 w1 = (Inr (data b), w')"
    by (rule build_table_InrE)
  from a i have "declared_fields c = fl" by (simp add: declared_fields_def)
  with generate_fields_keys [OF f] metadata_columns_keys [OF m]
  show ?thesis by (simp add: insert_keys_append)
qed

lemma ex_metadata_built:
  "build_table ex_env (ex_generator []) ex_metadata ex_world =
     (Inr \<lparr>data = [(PStr ''y'', [PInt 0]), (PStr ''created_by'', [PStr ''Ann'']),
                  (PStr ''created_at'', [PTime 1000])],
           num_rows = PInt 1,
           metadata_config =
             PDict [(PStr ''enable'', PBool True),
                    (PStr ''fields'', PList [PStr ''created_by'', PStr ''bogus'', PStr ''created_at''])],
           output_config = PDict []\<rparr>,
      ex_world\<lparr>rng := 2, ticks := 1\<rparr>)"
  by code_simp

lemma ex_collision_built:
  "build_table ex_env (ex_generator []) ex_collision ex_world =
     (Inr \<lparr>data = [(PStr ''created_at'', [PTime 1000, PTime 1001]),
                  (PStr ''y'', [PInt 2, PInt 3])],
           num_rows = PInt 2,
           metadata_config =
             PDict [(PStr ''enable'', PBool True),
                    (PStr ''fields'', PList [PStr ''created_at'', PStr ''bogus''])],
           output_config = PDict []\<rparr>,
      ex_world\<lparr>rng := 4, ticks := 2\<rparr>)"
  by code_simp

lemma ex_metadata_names:
  "field_names (declared_fields ex_metadata) = [PStr ''y'']"
  "enabled (PDict [(PStr ''enable'', PBool True),
                   (PStr ''fields'', PList [PStr ''created_by'', PStr ''bogus'', PStr ''created_at''])])"
  "filter recognized (listed_fields (PDict [(PStr ''enable'', PBool True),
                   (PStr ''fields'', PList [PStr ''created_by'', PStr ''bogus'', PStr ''created_at''])]))
     = [PStr ''created_by'', PStr ''created_at'']"
  by code_simp+

lemma ex_collision_names:
  "field_names (declared_fields ex_collision) = [PStr ''created_at'', PStr ''y'']"
  "enabled (PDict [(PStr ''enable'', PBool True),
                   (PStr ''fields'', PList [PStr ''created_at'', PStr ''bogus''])])"
  "filter recognized (listed_fields (PDict [(PStr ''enable'', PBool True),
                   (PStr ''fields'', PList [PStr ''created_at'', PStr ''bogus''])]))
     = [PStr ''created_at'']"
  by code_simp+

section \<open>Facts about repeated column names\<close>

lemma key_eq_PStr_right: "key_eq k (PStr s) = (k = PStr s)"
  by (cases k) (simp_all add: key_eq_def norm_key_def)

lemma recognized_PStr: "recognized m \<Longrightarrow> \<exists>s. m = PStr s"
  unfolding recognized_def by blast

lemma insert_key_cases:
  obtains (old) "list_ex (\<lambda>k'. key_eq k' k) ks" "insert_key ks k = ks"
  | (new) "\<not> list_ex (\<lambda>k'. key_eq k' k) ks" "insert_key ks k = ks @ [k]"
  by (cases "list_ex (\<lambda>k'. key_eq k' k) ks") (simp_all add: insert_key_def)

lemma insert_keys_prefix:
  "\<exists>extra. insert_keys ks new = ks @ extra
     \<and> (\<forall>k\<in>set extra. \<not> list_ex (\<lambda>k'. key_eq k' k) ks)"
proof (induction new arbitrary: ks)
  case Nil
  then show ?case by simp
next
  case (Cons k new)
  show ?case
  proof (cases k ks rule: insert_key_cases)
    case old
    with Cons.IH [of ks] show ?thesis by simp
  next
    case new
    from Cons.IH [of "ks @ [k]"] obtain extra where
      e: "insert_keys (ks @ [k]) new = (ks @ [k]) @ extra"
      and f: "\<forall>x\<in>set extra. \<not> list_ex (\<lambda>k'. key_eq k' x) (ks @ [k])" by blast
    from f new(1) have "\<forall>x\<in>set (k # extra). \<not> list_ex (\<lambda>k'. key_eq k' x) ks"
      by (auto simp: list_ex_iff)
    moreover from e new(2) have "insert_keys ks (k # new) = ks @ (k # extra)" by simp
    ultimately show ?thesis by blast
  qed
qed

lemma insert_keys_distinct_norm:
  "distinct (map norm_key ks) \<Longrightarrow> distinct (map norm_key (insert_keys ks new))"
proof (induction new arbitrary: ks)
  case Nil
  then show ?case by simp
next
  case (Cons k new)
  show ?case
  proof (cases k ks rule: insert_key_cases)
    case old
    with Cons show ?thesis by simp
  next
    case new
    from new(1) have "norm_key k \<notin> norm_key ` set ks"
      by (auto simp: list_ex_iff key_eq_def)
    with Cons.prems have "distinct (map norm_key (ks @ [k]))" by simp
    from Cons.IH [OF this] new(2) show ?thesis by simp
  qed
qed

lemma insert_keys_keeps:
  "list_ex P ks \<Longrightarrow> list_ex P (insert_keys ks new)"
proof -
  assume "list_ex P ks"
  moreover obtain extra where "insert_keys ks new = ks @ extra"
    using insert_keys_prefix by blast
  ultimately show ?thesis by (auto simp: list_ex_iff)
qed

lemma insert_keys_mem:
  "k \<in> set new \<Longrightarrow> list_ex (\<lambda>k'. key_eq k' k) (insert_keys ks new)"
proof (induction new arbitrary: ks)
  case Nil
  then show ?case by simp
next
  case (Cons a new)
  show ?case
  proof (cases "k = a")
    case True
    have "list_ex (\<lambda>k'. key_eq k' k) (insert_key ks a)"
      by (cases a ks rule: insert_key_cases) (simp_all add: True)
    then show ?thesis by (simp add: insert_keys_keeps)
  next
    case False
    with Cons.prems have "k \<in> set new" by simp
    from Cons.IH [OF this] show ?thesis by simp
  qed
qed

lemma count_list_distinct:
  "distinct xs \<Longrightarrow> x \<in> set xs \<Longrightarrow> count_list xs x = 1"
  by (induction xs) (auto simp: count_list_0_iff)

lemma generate_metadata_field_value:
  assumes s: "generate_metadata_field e rows m' d w = (Inr d', w')" and rm: "recognized m"
    and pre: "m' = m \<or> (\<exists>n t r col. py_range rows = Inr n
                \<and> metadata_column e m n t r = Some col \<and> dict_lookup d m = Some col)"
  shows "\<exists>n t r col. py_range rows = Inr n
                \<and> metadata_column e m n t r = Some col \<and> dict_lookup d' m = Some col"
proof (cases "recognized m'")
  case True
  from True s obtain n col' where n: "py_range rows = Inr n"
    and c: "metadata_column e m' n (ticks w) (rng w) = Some col'"
    and d': "d' = dict_set d m' col'"
    by (rule generate_metadata_field_recognized)
  show ?thesis
  proof (cases "m' = m")
    case True
    with n c d' have "py_range rows = Inr n \<and> metadata_column e m n (ticks w) (rng w) = Some col'
        \<and> dict_lookup d' m = Some col'"
      by (simp add: dict_lookup_set)
    then show ?thesis by blast
  next
    case False
    from rm obtain s where "m = PStr s" using recognized_PStr by blast
    with False have "\<not> key_eq m' m" by (simp add: key_eq_PStr_right)
    with d' have "dict_lookup d' m = dict_lookup d m" by (simp add: dict_lookup_set)
    with pre False show ?thesis by simp
  qed
next
  case False
  with s have "d' = d" by (simp add: generate_metadata_field_unrecognized)
  moreover from False rm have "m' \<noteq> m" by blast
  ultimately show ?thesis using pre by simp
qed

lemma generate_metadata_value:
  "generate_metadata e rows ms d w = (Inr d', w') \<Longrightarrow> recognized m \<Longrightarrow>
   m \<in> set ms \<or> (\<exists>n t r col. py_range rows = Inr n
                \<and> metadata_column e m n t r = Some col \<and> dict_lookup d m = Some col) \<Longrightarrow>
   \<exists>n t r col. py_range rows = Inr n
                \<and> metadata_column e m n t r = Some col \<and> dict_lookup d' m = Some col"
proof (induction ms arbitrary: d w)
  case Nil
  then show ?case by simp
next
  case (Cons m' ms)
  from Cons.prems(1) obtain d1 w1 where s: "generate_metadata_field e rows m' d w = (Inr d1, w1)"
    and r: "generate_metadata e rows ms d1 w1 = (Inr d', w')"
    by (auto split: prod.splits sum.splits)
  show ?case
  proof (cases "m \<in> set ms")
    case True
    then show ?thesis using Cons.IH [OF r Cons.prems(2)] by blast
  next
    case False
    with Cons.prems(3) have "m' = m \<or> (\<exists>n t r col. py_range rows = Inr n
                \<and> metadata_column e m n t r = Some col \<and> dict_lookup d m = Some col)"
      by auto
    from generate_metadata_field_value [OF s Cons.prems(2) this]
    show ?thesis using Cons.IH [OF r Cons.prems(2)] by blast
  qed
qed

lemma ex_collision_fields:
  "fst (generate_fields ex_env (PInt 2) (declared_fields ex_collision) [] ex_world)
     = Inr [(PStr ''created_at'', [PStr ''Ann'', PStr ''Ann'']), (PStr ''y'', [PInt 2, PInt 3])]"
  "PStr ''created_at'' \<in> set (listed_fields (PDict [(PStr ''enable'', PBool True),
                     (PStr ''fields'', PList [PStr ''created_at'', PStr ''bogus''])]))"
  "recognized (PStr ''created_at'')"
  by code_simp+

section \<open>Facts about tables without rows\<close>

lemma dict_set_empty_columns:
  "dict_set (empty_columns ks) k [] = empty_columns (insert_key ks k)"
  by (induction ks) (auto simp: empty_columns_def insert_key_def)

lemma field_okE:
  assumes "field_ok e f"
  obtains nm t p where "py_getitem f ''name'' = Inr nm" "hashable nm"
    "py_getitem f ''type'' = Inr (PStr t)" "registry e t = Inr p"
proof -
  from assms obtain nm where n: "py_getitem f ''name'' = Inr nm" and h: "hashable nm"
    and r: "(case py_getitem f ''type'' of
               Inr (PStr t) \<Rightarrow> (case registry e t of Inr p \<Rightarrow> True | Inl _ \<Rightarrow> False)
             | _ \<Rightarrow> False)"
    unfolding field_ok_def by (auto split: sum.splits)
  from r obtain t where t: "py_getitem f ''type'' = Inr (PStr t)"
    and rr: "(case registry e t of Inr p \<Rightarrow> True | Inl _ \<Rightarrow> False)"
    by (auto split: sum.splits pyval.splits)
  from rr obtain p where "registry e t = Inr p" by (cases "registry e t") simp_all
  with n h t show ?thesis by (rule that)
qed

lemma generate_field_no_rows:
  assumes "field_ok e f" and "py_range rows = Inr 0"
  shows "\<exists>nm. py_getitem f ''name'' = Inr nm
            \<and> generate_field e rows f d w = (Inr (dict_set d nm []), w)"
proof -
  from assms(1) obtain nm t p where n: "py_getitem f ''name'' = Inr nm" and h: "hashable nm"
    and t: "py_getitem f ''type'' = Inr (PStr t)" and r: "registry e t = Inr p"
    by (rule field_okE)
  from n h t r assms(2) have "generate_field e rows f d w = (Inr (dict_set d nm []), w)"
    by (simp add: generate_field_def py_getattr_def)
  with n show ?thesis by blast
qed

lemma generate_fields_no_rows:
  "list_all (field_ok e) fl \<Longrightarrow> py_range rows = Inr 0 \<Longrightarrow>
   generate_fields e rows fl (empty_columns ks) w =
     (Inr (empty_columns (insert_keys ks (field_names fl))), w)"
proof (induction fl arbitrary: ks)
  case Nil
  then show ?case by (simp add: field_names_def)
next
  case (Cons f fl)
  from Cons.prems have ok: "field_ok e f" and rest: "list_all (field_ok e) fl" by simp_all
  from generate_field_no_rows [OF ok Cons.prems(2)] obtain nm where
    n: "py_getitem f ''name'' = Inr nm" and
    s: "generate_field e rows f (empty_columns ks) w = (Inr (dict_set (empty_columns ks) nm []), w)"
    by blast
  from n have fn: "field_names (f # fl) = nm # field_names fl" by (simp add: field_names_def)
  from s Cons.IH [OF rest Cons.prems(2), of "insert_key ks nm"]
  show ?case by (simp add: dict_set_empty_columns fn)
qed

lemma generate_metadata_field_no_rows:
  assumes "recognized m" and "py_range rows = Inr 0"
  shows "generate_metadata_field e rows m d w = (Inr (dict_set d m []), w)"
proof (cases "m = PStr ''created_at'' \<or> m = PStr ''modified_at''")
  case True
  then show ?thesis unfolding generate_metadata_field_def using assms(2) by simp
next
  case False
  with assms(1) have "m = PStr ''created_by'' \<or> m = PStr ''modified_by''"
    unfolding recognized_def by blast
  with False show ?thesis unfolding generate_metadata_field_def using assms(2) by simp
qed

lemma generate_metadata_no_rows:
  "py_range rows = Inr 0 \<Longrightarrow>
   generate_metadata e rows ms (empty_columns ks) w =
     (Inr (empty_columns (insert_keys ks (filter recognized ms))), w)"
proof (induction ms arbitrary: ks)
  case Nil
  then show ?case by simp
next
  case (Cons m ms)
  show ?case
  proof (cases "recognized m")
    case True
    from generate_metadata_field_no_rows [OF True Cons.prems]
      Cons.IH [OF Cons.prems, of "insert_key ks m"] True
    show ?thesis by (simp add: dict_set_empty_columns)
  next
    case False
    with Cons.IH [OF Cons.prems, of ks] show ?thesis
      by (simp add: generate_metadata_field_unrecognized)
  qed
qed

lemma merge_configs_Inr_PDict:
  "merge_configs a b = Inr m \<Longrightarrow> \<exists>d. m = PDict d"
  by (auto simp: merge_configs_def split: sum.splits pyval.splits)

lemma metadata_columns_no_rows:
  assumes "py_range rows = Inr 0" and "mc = PDict md" and "enabled mc \<longrightarrow> fields_iterable mc"
  shows "metadata_columns e rows mc (empty_columns ks) w =
     (Inr (empty_columns (insert_keys ks
            (if enabled mc then filter recognized (listed_fields mc) else []))), w)"
proof (cases "enabled mc")
  case False
  with assms(2) show ?thesis
    by (simp add: metadata_columns_def enabled_def py_get_def)
next
  case True
  with assms(3) have "fields_iterable mc" by simp
  then obtain fs ms where fs: "py_get mc ''fields'' (PList []) = Inr fs" and ms: "py_iter fs = Inr ms"
    by (auto simp: fields_iterable_def split: sum.splits)
  then have l: "listed_fields mc = ms" by (simp add: listed_fields_def)
  from True obtain en where en: "py_get mc ''enable'' (PBool False) = Inr en" and t: "truthy en"
    by (auto simp: enabled_def split: sum.splits)
  from en t fs ms have "metadata_columns e rows mc (empty_columns ks) w =
      generate_metadata e rows ms (empty_columns ks) w"
    by (simp add: metadata_columns_def)
  with generate_metadata_no_rows [OF assms(1)] True l show ?thesis by simp
qed

lemma transpose_all_empty:
  "\<forall>xs\<in>set xss. xs = [] \<Longrightarrow> transpose xss = []"
  by (induction xss) auto

lemma transpose_empty_columns: "transpose (map snd (empty_columns ks)) = []"
  by (rule transpose_all_empty) (auto simp: empty_columns_def)

lemma build_table_no_rows:
  assumes rows: "py_get c ''rows'' (PInt 100) = Inr rws" and r0: "py_range rws = Inr 0"
    and lm: "py_get c ''metadata'' (PDict []) = Inr lm"
    and mc: "merge_configs (global_metadata g) lm = Inr mc"
    and lo: "py_get c ''output'' (PDict []) = Inr lo"
    and oc: "merge_configs (global_output g) lo = Inr oc"
    and fs: "py_get c ''fields'' (PList []) = Inr fs" and fl: "py_iter fs = Inr fl"
    and ok: "list_all (field_ok e) fl"
    and it: "enabled mc \<longrightarrow> fields_iterable mc"
  shows "build_table e g c w =
    (Inr \<lparr>data = empty_columns (insert_keys [] (field_names fl
                     @ (if enabled mc then filter recognized (listed_fields mc) else []))),
          num_rows = rws, metadata_config = mc, output_config = oc\<rparr>, w)"
proof -
  from mc obtain md where md: "mc = PDict md" using merge_configs_Inr_PDict by blast
  have e0: "([] :: table) = empty_columns []" by (simp add: empty_columns_def)
  have f: "generate_fields e rws fl [] w = (Inr (empty_columns (insert_keys [] (field_names fl))), w)"
    unfolding e0 [THEN sym] using generate_fields_no_rows [OF ok r0, of "[]" w]
    by (simp add: empty_columns_def)
  have m: "metadata_columns e rws mc (empty_columns (insert_keys [] (field_names fl))) w =
     (Inr (empty_columns (insert_keys (insert_keys [] (field_names fl))
            (if enabled mc then filter recognized (listed_fields mc) else []))), w)"
    by (rule metadata_columns_no_rows [OF r0 md it])
  from rows lm mc lo oc fs fl f m show ?thesis
    by (simp add: build_table_def insert_keys_append)
qed

lemma ex_zero_rows_run:
  "files (snd (generate ex_env (ex_generator [(PStr ''z'', ex_zero_rows)]) ex_world))
     = [(''output/z.csv'',
         \<lparr>sep = CHR '','', header = [PStr ''x'', PStr ''created_at''], body = []\<rparr>)]"
  "fst (generate ex_env (ex_generator [(PStr ''z'', ex_zero_rows)]) ex_world) = None"
  by code_simp+

lemma ex_zero_rows_parts:
  "py_get ex_zero_rows ''rows'' (PInt 100) = Inr (PInt 0)"
  "py_get ex_zero_rows ''metadata'' (PDict [])
     = Inr (PDict [(PStr ''enable'', PBool True), (PStr ''fields'', PList [PStr ''created_at''])])"
  "merge_configs (global_metadata (ex_generator []))
     (PDict [(PStr ''enable'', PBool True), (PStr ''fields'', PList [PStr ''created_at''])])
     = Inr (PDict [(PStr ''enable'', PBool True), (PStr ''fields'', PList [PStr ''created_at''])])"
  "py_get ex_zero_rows ''output'' (PDict []) = Inr (PDict [])"
  "merge_configs (global_output (ex_generator [])) (PDict []) = Inr (PDict [])"
  "py_get ex_zero_rows ''fields'' (PList []) = Inr (PList [field_spec ''x'' ''zip''])"
  "py_iter (PList [field_spec ''x'' ''zip'']) = Inr [field_spec ''x'' ''zip'']"
  "list_all (field_ok ex_env) [field_spec ''x'' ''zip'']"
  "fields_iterable (PDict [(PStr ''enable'', PBool True), (PStr ''fields'', PList [PStr ''created_at''])])"
  "enabled (PDict [(PStr ''enable'', PBool True), (PStr ''fields'', PList [PStr ''created_at''])])"
  "insert_keys [] (field_names [field_spec ''x'' ''zip'']
      @ filter recognized (listed_fields
          (PDict [(PStr ''enable'', PBool True), (PStr ''fields'', PList [PStr ''created_at''])])))
    = [PStr ''x'', PStr ''created_at'']"
  by code_simp+

lemma ex_json_unknown_run:
  "generate ex_env (ex_generator [(PStr ''j'', ex_json_unknown)]) ex_world
     = (Some AttributeError, ex_world)"
  "py_get ex_json_unknown ''output'' (PDict []) = Inr (PDict [(PStr ''format'', PStr ''json'')])"
  "merge_configs (global_output (ex_generator [(PStr ''j'', ex_json_unknown)]))
       (PDict [(PStr ''format'', PStr ''json'')])
     = Inr (PDict [(PStr ''format'', PStr ''json'')])"
  "py_get (PDict [(PStr ''format'', PStr ''json'')]) ''format'' (PStr ''csv'') = Inr (PStr ''json'')"
  by code_simp+

lemma ex_json_lines:
  "py_str ex_env (PInt 2) = ''2''" "py_str ex_env (PStr ''j'') = ''j''"
  "py_str ex_env (PStr ''json'') = ''json''"
  by code_simp+

lemma head10_empty_columns: "head10 (empty_columns ks) = empty_columns ks"
  by (simp add: head10_def empty_columns_def)

lemma data_frame_empty_columns: "data_frame (empty_columns ks) = Inr (empty_columns ks)"
  by (rule data_frame_equal_lengths [where n = 0]) (auto simp: empty_columns_def)

lemma keys_empty_columns: "map fst (empty_columns ks) = ks"
  by (simp add: empty_columns_def comp_def)

lemma write_output_delimited:
  assumes df: "data_frame (data b) = Inr (data b)"
    and dir: "py_get (output_config b) ''directory'' (PStr ''output/'') = Inr (PStr dir)"
    and ok: "creatable e dir"
    and fmt: "py_get (output_config b) ''format'' (PStr ''csv'') = Inr fmt"
    and sup: "fmt = PStr ''csv'' \<or> fmt = PStr ''tsv''"
    and wr: "writable e (path_join dir (py_str e n @ ''.'' @ py_str e fmt))"
  shows "write_output e n b w =
    (None, w\<lparr>console := console w @
               [Line (''Generated '' @ py_str e (num_rows b) @ '' rows for dataset ''
                      @ [CHR 0x27] @ py_str e n @ [CHR 0x27]),
                Preview (head10 (data b))],
             dirs := List.insert dir (dirs w),
             files := AList.update (path_join dir (py_str e n @ ''.'' @ py_str e fmt))
               \<lparr>sep = (if fmt = PStr ''csv'' then CHR '','' else CHR 0x09),
                header = map fst (data b), body = transpose (map snd (data b))\<rparr>
               (files w)\<rparr>)"
proof -
  have p: "output_path e (PStr dir) n fmt = path_join dir (py_str e n @ ''.'' @ py_str e fmt)"
    by (simp add: output_path_def py_str_def)
  from sup show ?thesis
  proof
    assume c: "fmt = PStr ''csv''"
    with df dir ok fmt wr p show ?thesis
      by (simp add: write_output_def makedirs_def to_csv_def Let_def progress_line_def)
  next
    assume t: "fmt = PStr ''tsv''"
    with df dir ok fmt wr p show ?thesis
      by (simp add: write_output_def makedirs_def to_csv_def Let_def progress_line_def)
  qed
qed

lemma ex_zero_rows_unknown_built:
  "build_table ex_env (ex_generator []) ex_zero_rows_unknown ex_world
     = (Inl AttributeError, ex_world)"
  "py_get ex_zero_rows_unknown ''rows'' (PInt 100) = Inr (PInt 0)"
  by code_simp+

lemma ex_zero_rows_write:
  "py_get (PDict []) ''directory'' (PStr ''output/'') = Inr (PStr ''output/'')"
  "creatable ex_env ''output/''"
  "py_get (PDict []) ''format'' (PStr ''csv'') = Inr (PStr ''csv'')"
  "writable ex_env (path_join ''output/'' (py_str ex_env (PStr ''z'') @ ''.'' @ py_str ex_env (PStr ''csv'')))"
  "path_join ''output/'' (py_str ex_env (PStr ''z'') @ ''.'' @ py_str ex_env (PStr ''csv''))
     = ''output/z.csv''"
  "py_str ex_env (PInt 0) = ''0''" "py_str ex_env (PStr ''z'') = ''z''"
  by code_simp+

section \<open>Merge precedence\<close>

text \<open>
  Claim C3. For two dictionaries, the merge returns the global dictionary with every
  key of the local one set to the local value: looking a key up in the result gives
  the local value when the local dictionary has the key and the global value
  otherwise; the keys of the global dictionary keep their order and the keys only the
  local one has follow in its order. In particular merging \<open>{a:1, b:2}\<close> with
  \<open>{b:9}\<close> gives \<open>{a:1, b:9}\<close>, merging \<open>{a:1}\<close> with \<open>{}\<close> gives \<open>{a:1}\<close>, and
  merging \<open>{}\<close> with \<open>{x:1}\<close> gives \<open>{x:1}\<close>.
\<close>

theorem merge_configs_local_wins:
  assumes "wf_dict l"
  shows "(\<exists>m. merge_configs (PDict g) (PDict l) = Inr (PDict m)
            \<and> dict_lookup m k =
                (case dict_lookup l k of Some v \<Rightarrow> Some v | None \<Rightarrow> dict_lookup g k)
            \<and> map fst m = map fst g @ filter (\<lambda>k'. dict_lookup g k' = None) (map fst l))
       \<and> merge_configs (PDict [(PStr ''a'', PInt 1), (PStr ''b'', PInt 2)])
                         (PDict [(PStr ''b'', PInt 9)])
           = Inr (PDict [(PStr ''a'', PInt 1), (PStr ''b'', PInt 9)])
       \<and> merge_configs (PDict [(PStr ''a'', PInt 1)]) (PDict [])
           = Inr (PDict [(PStr ''a'', PInt 1)])
       \<and> merge_configs (PDict []) (PDict [(PStr ''x'', PInt 1)])
           = Inr (PDict [(PStr ''x'', PInt 1)])"
  using assms
  by (simp add: merge_configs_dicts wf_dict_def dict_lookup_update keys_dict_update)

theorem merge_configs_local_wins_witness:
  "wf_dict [(PStr ''b'', PInt 9), (PStr ''c'', PInt 3)]
   \<and> (\<exists>m. merge_configs (PDict [(PStr ''a'', PInt 1), (PStr ''b'', PInt 2)])
                           (PDict [(PStr ''b'', PInt 9), (PStr ''c'', PInt 3)]) = Inr (PDict m)
          \<and> dict_lookup m (PStr ''b'') = Some (PInt 9)
          \<and> map fst m = [PStr ''a'', PStr ''b'', PStr ''c''])"
proof -
  have h: "wf_dict [(PStr ''b'', PInt 9), (PStr ''c'', PInt 3)]"
    by (simp add: wf_dict_def norm_key_def hashable_def)
  from merge_configs_local_wins [OF h, of "[(PStr ''a'', PInt 1), (PStr ''b'', PInt 2)]" "PStr ''b''"]
  show ?thesis using h by simp
qed

section \<open>Loading the configuration\<close>

text \<open>
  Claim C6. When the configuration path does not exist, loading returns the empty
  dictionary and raises nothing; the generator is then constructed with empty global
  metadata and output sections (so every lookup falls back to its default), and the
  run ends without error and without any effect, there being no dataset.
\<close>

theorem missing_config_runs_with_defaults:
  assumes "config_files e p = None"
  shows "load_config e p = Inr (PDict [])
       \<and> init e p = Inr \<lparr>config = PDict [], global_metadata = PDict [], global_output = PDict []\<rparr>
       \<and> main e p w = (None, w)"
  using assms
  by (simp add: load_config_def init_def main_def generate_def py_get_def)

theorem missing_config_runs_with_defaults_witness:
  "config_files ex_env ''config/config.yml'' = None
   \<and> load_config ex_env ''config/config.yml'' = Inr (PDict [])
   \<and> main ex_env ''config/config.yml'' ex_world = (None, ex_world)"
proof -
  have h: "config_files ex_env ''config/config.yml'' = None"
    by (simp add: ex_env_def)
  from missing_config_runs_with_defaults [OF h, of ex_world] h show ?thesis by simp
qed

text \<open>
  Claim C9. When the configuration file exists and its content parses to the null
  document, loading returns \<open>None\<close>, the lookup of the \<open>global\<close> section on it raises
  \<open>AttributeError\<close>, and so constructing the generator fails, unlike the case of an
  absent file.
\<close>

theorem null_config_fails_at_init:
  assumes "config_files e p = Some (Inr PNone)"
  shows "load_config e p = Inr PNone
       \<and> py_get PNone ''global'' (PDict []) = Inl AttributeError
       \<and> init e p = Inl AttributeError
       \<and> main e p w = (Some AttributeError, w)"
  using assms
  by (simp add: load_config_def init_def main_def py_get_def)

theorem null_config_fails_at_init_witness:
  "config_files ex_env ''empty.yml'' = Some (Inr PNone)
   \<and> init ex_env ''empty.yml'' = Inl AttributeError
   \<and> main ex_env ''empty.yml'' ex_world = (Some AttributeError, ex_world)"
proof -
  have h: "config_files ex_env ''empty.yml'' = Some (Inr PNone)"
    by (simp add: ex_env_def)
  from null_config_fails_at_init [OF h, of ex_world] h show ?thesis by simp
qed

section \<open>The row count\<close>

text \<open>
  Claim C2, as amended. In every table that is built, every column, be it of a
  declared field or of a metadata field, has as many cells as \<open>range(rows)\<close> has
  elements, where \<open>rows\<close> is the dataset's \<open>rows\<close> value or 100 when it gives none:
  exactly \<open>rows\<close> cells when \<open>rows\<close> is a non-negative integer, and none when it is
  negative.
\<close>

theorem build_table_row_count:
  assumes "build_table e g c w = (Inr b, w')" and "(k, col) \<in> set (data b)"
  shows "py_get c ''rows'' (PInt 100) = Inr (num_rows b)
       \<and> py_range (num_rows b) = Inr (length col)
       \<and> (\<forall>n. num_rows b = PInt n \<longrightarrow> int (length col) = max 0 n)
       \<and> (\<forall>d. c = PDict d \<and> dict_lookup d (PStr ''rows'') = None \<longrightarrow> length col = 100)"
proof -
  from assms(1) have r: "py_get c ''rows'' (PInt 100) = Inr (num_rows b)"
    by (rule build_table_InrE)
  from build_table_cols [OF assms(1)] assms(2)
  have l: "py_range (num_rows b) = Inr (length col)" by force
  have "int (length col) = max 0 n" if "num_rows b = PInt n" for n
    using l that by (simp add: py_range_def)
  moreover have "length col = 100" if "c = PDict d \<and> dict_lookup d (PStr ''rows'') = None" for d
  proof -
    from r that have "num_rows b = PInt 100" by (simp add: py_get_def)
    with l show ?thesis by (simp add: py_range_def)
  qed
  ultimately show ?thesis using r l by blast
qed

theorem build_table_row_count_witness:
  "build_table ex_env (ex_generator []) ex_plain ex_world =
     (Inr \<lparr>data = [(PStr ''y'', [PInt 0, PInt 1])], num_rows = PInt 2,
           metadata_config = PDict [], output_config = PDict []\<rparr>,
      ex_world\<lparr>rng := 2\<rparr>)
   \<and> (PStr ''y'', [PInt 0, PInt 1]) \<in> set [(PStr ''y'', [PInt 0, PInt 1])]
   \<and> py_range (PInt 2) = Inr (length [PInt 0, PInt 1])"
proof -
  have m: "(PStr ''y'', [PInt 0, PInt 1]) \<in>
      set (data \<lparr>data = [(PStr ''y'', [PInt 0, PInt 1])], num_rows = PInt 2,
                 metadata_config = PDict [], output_config = PDict []\<rparr>)"
    by simp
  from build_table_row_count [OF ex_plain_built m] ex_plain_built show ?thesis by simp
qed

text \<open>
  Claim C2 as stated fails for a negative row count: with \<open>rows: -1\<close> the table is
  built and its column has no cells, which is not \<open>-1\<close> cells.
\<close>

theorem row_count_negative_rows_counterexample:
  "fst (build_table ex_env (ex_generator []) ex_negative_rows ex_world) =
     Inr \<lparr>data = [(PStr ''x'', [])], num_rows = PInt (- 1),
          metadata_config = PDict [], output_config = PDict []\<rparr>
   \<and> int (length ([] :: pyval list)) \<noteq> - 1"
  by (simp add: ex_negative_rows_built)

section \<open>Failures in the loop over the datasets\<close>

text \<open>
  Claim C1, as amended. A failure while building or writing a dataset is not caught:
  it ends \<open>generate\<close> with that error, in the state the failing dataset left, and no
  later dataset is attempted. The datasets attempted are always an initial segment of
  the \<open>datasets\<close> mapping in declaration order, hence each at most once; when no
  dataset fails, every dataset is attempted exactly once, in declaration order.
\<close>

theorem generate_stops_at_first_failure:
  assumes "py_get (config g) ''datasets'' (PDict []) = Inr (PDict ds)"
  shows "(\<exists>rest. map fst ds = attempted e g ds w @ rest)
       \<and> (\<forall>w'. generate e g w = (None, w') \<longrightarrow> attempted e g ds w = map fst ds)
       \<and> (\<forall>ds1 n c ds2 w1 err w2.
            ds = ds1 @ (n, c) # ds2 \<and> generate_loop e g ds1 w = (None, w1)
            \<and> generate_dataset e g n c w1 = (Some err, w2)
            \<longrightarrow> generate e g w = (Some err, w2) \<and> attempted e g ds w = map fst ds1 @ [n])"
proof -
  note gen = generate_datasets [OF assms]
  have a: "\<exists>rest. map fst ds = attempted e g ds w @ rest" by (rule attempted_prefix)
  have b: "attempted e g ds w = map fst ds" if "generate e g w = (None, w')" for w'
  proof -
    from that have "generate_loop e g ds w = (None, w')" by (simp add: gen)
    from attempted_append [OF this, of "[]"] show ?thesis by simp
  qed
  have c: "generate e g w = (Some err, w2) \<and> attempted e g ds w = map fst ds1 @ [n]"
    if "ds = ds1 @ (n, c) # ds2 \<and> generate_loop e g ds1 w = (None, w1)
        \<and> generate_dataset e g n c w1 = (Some err, w2)"
    for ds1 n c ds2 w1 err w2
  proof -
    from that have d: "ds = ds1 @ (n, c) # ds2" and l: "generate_loop e g ds1 w = (None, w1)"
      and f: "generate_dataset e g n c w1 = (Some err, w2)" by simp_all
    from generate_loop_append [OF l, of "(n, c) # ds2"] f
    have "generate e g w = (Some err, w2)" by (simp add: gen d)
    moreover from attempted_append [OF l, of "(n, c) # ds2"] f
    have "attempted e g ds w = map fst ds1 @ [n]" by (simp add: d)
    ultimately show ?thesis ..
  qed
  from a b c show ?thesis by blast
qed

theorem generate_stops_at_first_failure_witness:
  "py_get (config (ex_generator ex_failing_first)) ''datasets'' (PDict [])
     = Inr (PDict ex_failing_first)
   \<and> generate_loop ex_env (ex_generator ex_failing_first) [] ex_world = (None, ex_world)
   \<and> generate_dataset ex_env (ex_generator ex_failing_first) (PStr ''a'') ex_unknown_type ex_world
       = (Some AttributeError, ex_world)
   \<and> generate ex_env (ex_generator ex_failing_first) ex_world = (Some AttributeError, ex_world)
   \<and> attempted ex_env (ex_generator ex_failing_first) ex_failing_first ex_world = [PStr ''a'']"
proof -
  have h: "py_get (config (ex_generator ex_failing_first)) ''datasets'' (PDict [])
     = Inr (PDict ex_failing_first)"
    by (simp add: ex_generator_def py_get_def)
  have d: "ex_failing_first = [] @ (PStr ''a'', ex_unknown_type) # [(PStr ''b'', ex_plain)]"
    by (simp add: ex_failing_first_def)
  have l: "generate_loop ex_env (ex_generator ex_failing_first) [] ex_world = (None, ex_world)"
    by simp
  have f: "generate_dataset ex_env (ex_generator ex_failing_first) (PStr ''a'') ex_unknown_type
      ex_world = (Some AttributeError, ex_world)"
    by code_simp
  from generate_stops_at_first_failure [OF h, of ex_env ex_world] d l f
  have "generate ex_env (ex_generator ex_failing_first) ex_world = (Some AttributeError, ex_world)
      \<and> attempted ex_env (ex_generator ex_failing_first) ex_failing_first ex_world
          = map fst ([] :: pydict) @ [PStr ''a'']"
    by blast
  with h l f show ?thesis by simp
qed

text \<open>
  Claim C1 as stated fails: \<open>generate\<close> has no exception handler. With two datasets of
  which the first names an unregistered field type, the \<open>AttributeError\<close> leaves
  \<open>generate\<close>, only the first dataset is attempted, and no file is written for the
  second.
\<close>

theorem failure_not_isolated_counterexample:
  "fst (generate ex_env (ex_generator ex_failing_first) ex_world) = Some AttributeError
   \<and> attempted ex_env (ex_generator ex_failing_first) ex_failing_first ex_world = [PStr ''a'']
   \<and> map fst ex_failing_first = [PStr ''a'', PStr ''b'']
   \<and> files (snd (generate ex_env (ex_generator ex_failing_first) ex_world)) = []"
  by (simp add: ex_failing_first_run ex_failing_first_attempted)
     (simp add: ex_failing_first_def ex_world_def)

section \<open>The merge leaves its arguments alone\<close>



section \<open>The order of the columns\<close>

text \<open>
  Claim C4, as amended. For every built table, with the effective metadata
  configuration being the merge of the global and the dataset's \<open>metadata\<close> sections:
  the column names are, in order, the names of the declared fields followed, when
  \<open>enable\<close> of the effective metadata configuration is truthy (default false), by the
  recognized metadata field names that configuration lists; a name that occurs again
  in this sequence adds no column and leaves the column at its first position. So
  when \<open>enable\<close> is not truthy there are the field columns only, and when these names
  are all different the column order is the declared fields in declaration order
  followed by the recognized metadata fields in the order listed. A metadata field
  name outside the four recognized ones changes nothing and raises nothing.
\<close>

theorem build_table_column_order:
  assumes "build_table e g c w = (Inr b, w')"
  shows "(\<exists>lm. py_get c ''metadata'' (PDict []) = Inr lm
             \<and> merge_configs (global_metadata g) lm = Inr (metadata_config b))
       \<and> map fst (data b) =
           insert_keys [] (field_names (declared_fields c)
             @ (if enabled (metadata_config b)
                then filter recognized (listed_fields (metadata_config b)) else []))
       \<and> (\<not> enabled (metadata_config b) \<longrightarrow>
            map fst (data b) = insert_keys [] (field_names (declared_fields c)))
       \<and> (enabled (metadata_config b)
            \<and> distinct (map norm_key (field_names (declared_fields c)
                  @ filter recognized (listed_fields (metadata_config b))))
            \<longrightarrow> map fst (data b) =
                  field_names (declared_fields c)
                  @ filter recognized (listed_fields (metadata_config b)))
       \<and> (\<not> recognized m \<longrightarrow> generate_metadata_field e rows m d0 w0 = (Inr d0, w0))"
proof -
  from assms have a: "\<exists>lm. py_get c ''metadata'' (PDict []) = Inr lm
             \<and> merge_configs (global_metadata g) lm = Inr (metadata_config b)"
    by (rule build_table_InrE) blast
  note k = build_table_keys [OF assms]
  have n: "map fst (data b) = insert_keys [] (field_names (declared_fields c))"
    if "\<not> enabled (metadata_config b)"
    using k that by simp
  have d: "map fst (data b) =
      field_names (declared_fields c) @ filter recognized (listed_fields (metadata_config b))"
    if "enabled (metadata_config b)
        \<and> distinct (map norm_key (field_names (declared_fields c)
              @ filter recognized (listed_fields (metadata_config b))))"
  proof -
    from that have "distinct (map norm_key ([] @ (field_names (declared_fields c)
              @ filter recognized (listed_fields (metadata_config b)))))" by simp
    from insert_keys_distinct [OF this] k that show ?thesis by simp
  qed
  have u: "generate_metadata_field e rows m d0 w0 = (Inr d0, w0)" if "\<not> recognized m"
    using that by (rule generate_metadata_field_unrecognized)
  from a k n d u show ?thesis by blast
qed

theorem build_table_column_order_witness:
  "build_table ex_env (ex_generator []) ex_metadata ex_world =
     (Inr \<lparr>data = [(PStr ''y'', [PInt 0]), (PStr ''created_by'', [PStr ''Ann'']),
                  (PStr ''created_at'', [PTime 1000])],
           num_rows = PInt 1,
           metadata_config =
             PDict [(PStr ''enable'', PBool True),
                    (PStr ''fields'', PList [PStr ''created_by'', PStr ''bogus'', PStr ''created_at''])],
           output_config = PDict []\<rparr>,
      ex_world\<lparr>rng := 2, ticks := 1\<rparr>)
   \<and> map fst [(PStr ''y'', [PInt 0]), (PStr ''created_by'', [PStr ''Ann'']),
               (PStr ''created_at'', [PTime 1000 :: pyval])]
       = field_names (declared_fields ex_metadata)
         @ filter recognized (listed_fields
             (PDict [(PStr ''enable'', PBool True),
                     (PStr ''fields'', PList [PStr ''created_by'', PStr ''bogus'', PStr ''created_at''])]))"
proof -
  let ?mc = "PDict [(PStr ''enable'', PBool True),
                    (PStr ''fields'', PList [PStr ''created_by'', PStr ''bogus'', PStr ''created_at''])]"
  let ?b = "\<lparr>data = [(PStr ''y'', [PInt 0]), (PStr ''created_by'', [PStr ''Ann'']),
                  (PStr ''created_at'', [PTime 1000])],
           num_rows = PInt 1, metadata_config = ?mc, output_config = PDict []\<rparr>"
  have h: "enabled (metadata_config ?b)
      \<and> distinct (map norm_key (field_names (declared_fields ex_metadata)
            @ filter recognized (listed_fields (metadata_config ?b))))"
    by (simp add: ex_metadata_names norm_key_def)
  from build_table_column_order [OF ex_metadata_built] h
  have "map fst (data ?b) =
      field_names (declared_fields ex_metadata)
      @ filter recognized (listed_fields (metadata_config ?b))"
    by blast
  then have "map fst [(PStr ''y'', [PInt 0]), (PStr ''created_by'', [PStr ''Ann'']),
               (PStr ''created_at'', [PTime 1000 :: pyval])]
       = field_names (declared_fields ex_metadata) @ filter recognized (listed_fields ?mc)"
    by (simp only: built.simps)
  with ex_metadata_built show ?thesis by (intro conjI)
qed

text \<open>
  Claim C4 as stated fails when a listed metadata field has the name of a declared
  field: with the fields \<open>created_at\<close> and \<open>y\<close> and the metadata field \<open>created_at\<close>
  enabled, the columns are \<open>created_at, y\<close>, not the declared fields followed by the
  metadata field.
\<close>

theorem column_order_collision_counterexample:
  "fst (build_table ex_env (ex_generator []) ex_collision ex_world)
     = Inr \<lparr>data = [(PStr ''created_at'', [PTime 1000, PTime 1001]),
                    (PStr ''y'', [PInt 2, PInt 3])],
            num_rows = PInt 2,
            metadata_config =
              PDict [(PStr ''enable'', PBool True),
                     (PStr ''fields'', PList [PStr ''created_at'', PStr ''bogus''])],
            output_config = PDict []\<rparr>
   \<and> enabled (PDict [(PStr ''enable'', PBool True),
                     (PStr ''fields'', PList [PStr ''created_at'', PStr ''bogus''])])
   \<and> field_names (declared_fields ex_collision)
       @ filter recognized (listed_fields
           (PDict [(PStr ''enable'', PBool True),
                   (PStr ''fields'', PList [PStr ''created_at'', PStr ''bogus''])]))
     = [PStr ''created_at'', PStr ''y'', PStr ''created_at'']
   \<and> map fst [(PStr ''created_at'', [PTime 1000, PTime 1001]), (PStr ''y'', [PInt 2, PInt 3 :: pyval])]
     \<noteq> [PStr ''created_at'', PStr ''y'', PStr ''created_at'']"
  by (simp add: ex_collision_built ex_collision_names)

section \<open>A metadata field named like a declared field\<close>

text \<open>
  Claim C8. When metadata is enabled and a recognized metadata field the metadata
  configuration lists has the name of a declared field, the built table has exactly
  one column of that name; the columns are those of the declared fields, in the
  order the field loop left them, followed by further columns none of which has that
  name, so the column stays where the declared field put it; and its cells are those
  the metadata branch writes, not those generated for the field.
\<close>

theorem metadata_replaces_colliding_field:
  assumes "build_table e g c w = (Inr b, w')"
    and "enabled (metadata_config b)"
    and "recognized m" and "m \<in> set (listed_fields (metadata_config b))"
    and "m \<in> set (field_names (declared_fields c))"
  shows "count_list (map fst (data b)) m = 1
       \<and> m \<in> set (insert_keys [] (field_names (declared_fields c)))
       \<and> (\<exists>extra. map fst (data b) = insert_keys [] (field_names (declared_fields c)) @ extra
                  \<and> m \<notin> set extra)
       \<and> (\<exists>n t r col. py_range (num_rows b) = Inr n
                  \<and> metadata_column e m n t r = Some col
                  \<and> dict_lookup (data b) m = Some col)"
proof -
  let ?names = "field_names (declared_fields c)"
  let ?metas = "filter recognized (listed_fields (metadata_config b))"
  from assms(1) obtain d1 w1 where
    mc: "metadata_columns e (num_rows b) (metadata_config b) d1 w1 = (Inr (data b), w')"
    by (rule build_table_InrE)
  from mc assms(2) have gm:
    "generate_metadata e (num_rows b) (listed_fields (metadata_config b)) d1 w1 = (Inr (data b), w')"
    by (cases rule: metadata_columns_InrE) simp_all
  from assms(3) obtain s where ms: "m = PStr s" using recognized_PStr by blast
  from build_table_keys [OF assms(1)] assms(2)
  have k: "map fst (data b) = insert_keys (insert_keys [] ?names) ?metas"
    by (simp add: insert_keys_append)
  from insert_keys_mem [OF assms(5), of "[]"]
  have mem: "m \<in> set (insert_keys [] ?names)"
    by (auto simp: list_ex_iff ms key_eq_PStr_right)
  obtain extra where e: "insert_keys (insert_keys [] ?names) ?metas = insert_keys [] ?names @ extra"
    and f: "\<forall>x\<in>set extra. \<not> list_ex (\<lambda>k'. key_eq k' x) (insert_keys [] ?names)"
    using insert_keys_prefix by blast
  have notin: "m \<notin> set extra"
  proof
    assume "m \<in> set extra"
    with f have "\<not> list_ex (\<lambda>k'. key_eq k' m) (insert_keys [] ?names)" by blast
    with mem show False by (auto simp: list_ex_iff)
  qed
  have "distinct (map norm_key (insert_keys [] (?names @ (if enabled (metadata_config b) then ?metas else []))))"
    by (rule insert_keys_distinct_norm) simp
  with build_table_keys [OF assms(1)] have "distinct (map norm_key (map fst (data b)))" by simp
  then have "distinct (map fst (data b))"
    using distinct_map [of norm_key "map fst (data b)"] by blast
  moreover from k e mem have "m \<in> set (map fst (data b))" by simp
  ultimately have once: "count_list (map fst (data b)) m = 1" by (rule count_list_distinct)
  from generate_metadata_value [OF gm assms(3)] assms(4)
  have val: "\<exists>n t r col. py_range (num_rows b) = Inr n
                  \<and> metadata_column e m n t r = Some col
                  \<and> dict_lookup (data b) m = Some col" by blast
  from k e notin have "\<exists>extra. map fst (data b) = insert_keys [] ?names @ extra \<and> m \<notin> set extra"
    by auto
  with once mem val show ?thesis by blast
qed

theorem metadata_replaces_colliding_field_witness:
  "build_table ex_env (ex_generator []) ex_collision ex_world =
     (Inr \<lparr>data = [(PStr ''created_at'', [PTime 1000, PTime 1001]),
                  (PStr ''y'', [PInt 2, PInt 3])],
           num_rows = PInt 2,
           metadata_config =
             PDict [(PStr ''enable'', PBool True),
                    (PStr ''fields'', PList [PStr ''created_at'', PStr ''bogus''])],
           output_config = PDict []\<rparr>,
      ex_world\<lparr>rng := 4, ticks := 2\<rparr>)
   \<and> enabled (PDict [(PStr ''enable'', PBool True),
                     (PStr ''fields'', PList [PStr ''created_at'', PStr ''bogus''])])
   \<and> recognized (PStr ''created_at'')
   \<and> PStr ''created_at'' \<in> set (listed_fields (PDict [(PStr ''enable'', PBool True),
                     (PStr ''fields'', PList [PStr ''created_at'', PStr ''bogus''])]))
   \<and> PStr ''created_at'' \<in> set (field_names (declared_fields ex_collision))
   \<and> count_list (map fst [(PStr ''created_at'', [PTime 1000, PTime 1001]),
                           (PStr ''y'', [PInt 2, PInt 3 :: pyval])]) (PStr ''created_at'') = 1
   \<and> fst (generate_fields ex_env (PInt 2) (declared_fields ex_collision) [] ex_world)
       = Inr [(PStr ''created_at'', [PStr ''Ann'', PStr ''Ann'']), (PStr ''y'', [PInt 2, PInt 3])]"
proof -
  let ?mc = "PDict [(PStr ''enable'', PBool True),
                    (PStr ''fields'', PList [PStr ''created_at'', PStr ''bogus''])]"
  let ?d = "[(PStr ''created_at'', [PTime 1000, PTime 1001]), (PStr ''y'', [PInt 2, PInt 3])]"
  let ?b = "\<lparr>data = ?d, num_rows = PInt 2, metadata_config = ?mc, output_config = PDict []\<rparr>"
  note b = ex_collision_built
  have en: "enabled ?mc" by (rule ex_collision_names(2))
  have en': "enabled (metadata_config ?b)" using en by (simp only: built.simps)
  have re: "recognized (PStr ''created_at'')" by (rule ex_collision_fields(3))
  have li: "PStr ''created_at'' \<in> set (listed_fields ?mc)" by (rule ex_collision_fields(2))
  have li': "PStr ''created_at'' \<in> set (listed_fields (metadata_config ?b))"
    using li by (simp only: built.simps)
  have fi: "PStr ''created_at'' \<in> set (field_names (declared_fields ex_collision))"
    by (simp add: ex_collision_names(1))
  from metadata_replaces_colliding_field [OF b en' re li' fi]
  have "count_list (map fst (data ?b)) (PStr ''created_at'') = 1" by (rule conjunct1)
  then have co: "count_list (map fst ?d) (PStr ''created_at'') = 1" by (simp only: built.simps)
  note fl = ex_collision_fields(1)
  show ?thesis by (intro conjI; fact)
qed

section \<open>Unsupported output formats\<close>

text \<open>
  Claim C5, as amended. For a dataset that reaches the write, that is, whose table
  is built and whose output directory is a string naming a directory that can be
  created, and whose effective output \<open>format\<close> (from the merge of the global and
  the dataset's \<open>output\<close> sections) is neither \<open>csv\<close> nor \<open>tsv\<close>: the loop body ends
  without an exception; it has created the directory and printed the progress line,
  the preview and then the line \<open>Unsupported output format: \<close> followed by the
  format, and has changed nothing else after the build, so the written files are
  those from before; and the loop goes on with the remaining datasets from that
  state.
\<close>

theorem unsupported_format_skips_write:
  assumes "build_table e g c w = (Inr b, w1)"
    and "py_get (output_config b) ''directory'' (PStr ''output/'') = Inr (PStr dir)"
    and "creatable e dir"
    and "py_get (output_config b) ''format'' (PStr ''csv'') = Inr fmt"
    and "fmt \<noteq> PStr ''csv''" and "fmt \<noteq> PStr ''tsv''"
  shows "(\<exists>lo. py_get c ''output'' (PDict []) = Inr lo
             \<and> merge_configs (global_output g) lo = Inr (output_config b))
       \<and> generate_dataset e g n c w =
           (None,
            w1\<lparr>console := console w @
                  [Line (''Generated '' @ py_str e (num_rows b) @ '' rows for dataset ''
                         @ [CHR 0x27] @ py_str e n @ [CHR 0x27]),
                   Preview (head10 (data b)),
                   Line (''Unsupported output format: '' @ py_str e fmt)],
                dirs := List.insert dir (dirs w)\<rparr>)
       \<and> files (snd (generate_dataset e g n c w)) = files w
       \<and> generate_loop e g ((n, c) # rest) w
           = generate_loop e g rest (snd (generate_dataset e g n c w))"
proof -
  let ?w2 = "w1\<lparr>console := console w @
                  [Line (''Generated '' @ py_str e (num_rows b) @ '' rows for dataset ''
                         @ [CHR 0x27] @ py_str e n @ [CHR 0x27]),
                   Preview (head10 (data b)),
                   Line (''Unsupported output format: '' @ py_str e fmt)],
                dirs := List.insert dir (dirs w)\<rparr>"
  from assms(1) have m: "\<exists>lo. py_get c ''output'' (PDict []) = Inr lo
             \<and> merge_configs (global_output g) lo = Inr (output_config b)"
    by (rule build_table_InrE) blast
  from build_table_frame [OF assms(1)] have fr: "files w1 = files w" "console w1 = console w"
    "dirs w1 = dirs w" by simp_all
  from build_table_data_frame [OF assms(1)] assms(2-6)
  have "write_output e n b w1 =
    (None, w1\<lparr>console := console w1 @
               [Line (progress_line e (num_rows b) n), Preview (head10 (data b)),
                Line (unsupported_line e fmt)],
             dirs := List.insert dir (dirs w1)\<rparr>)"
    by (rule write_output_unsupported)
  then have wr: "write_output e n b w1 = (None, ?w2)"
    by (simp add: fr progress_line_def unsupported_line_def)
  with assms(1) have gd: "generate_dataset e g n c w = (None, ?w2)"
    by (simp add: generate_dataset_def)
  have l: "generate_loop e g ((n, c) # rest) w = generate_loop e g rest ?w2"
    by (simp add: gd)
  have f: "files (snd (generate_dataset e g n c w)) = files w"
    unfolding gd by (simp add: fr)
  have l': "generate_loop e g ((n, c) # rest) w
           = generate_loop e g rest (snd (generate_dataset e g n c w))"
    unfolding l unfolding gd by simp
  from m gd f l' show ?thesis by (intro conjI)
qed

theorem unsupported_format_skips_write_witness:
  "build_table ex_env (ex_generator []) ex_json ex_world =
     (Inr \<lparr>data = [(PStr ''y'', [PInt 0, PInt 1])], num_rows = PInt 2,
           metadata_config = PDict [],
           output_config = PDict [(PStr ''format'', PStr ''json'')]\<rparr>,
      ex_world\<lparr>rng := 2\<rparr>)
   \<and> creatable ex_env ''output/''
   \<and> PStr ''json'' \<noteq> PStr ''csv'' \<and> PStr ''json'' \<noteq> PStr ''tsv''
   \<and> generate_dataset ex_env (ex_generator []) (PStr ''j'') ex_json ex_world =
       (None,
        \<lparr>rng = 2, ticks = 0, dirs = [''output/''], files = [],
         console =
           [Line (''Generated 2 rows for dataset '' @ [CHR 0x27] @ ''j'' @ [CHR 0x27]),
            Preview [(PStr ''y'', [PInt 0, PInt 1])],
            Line ''Unsupported output format: json'']\<rparr>)"
proof -
  let ?b = "\<lparr>data = [(PStr ''y'', [PInt 0, PInt 1])], num_rows = PInt 2,
           metadata_config = PDict [],
           output_config = PDict [(PStr ''format'', PStr ''json'')]\<rparr>"
  have d: "py_get (output_config ?b) ''directory'' (PStr ''output/'') = Inr (PStr ''output/'')"
    by (simp add: py_get_def)
  have c: "creatable ex_env ''output/''" by (simp add: ex_env_def)
  have f: "py_get (output_config ?b) ''format'' (PStr ''csv'') = Inr (PStr ''json'')"
    by (simp add: py_get_def)
  have n1: "PStr ''json'' \<noteq> PStr ''csv''" and n2: "PStr ''json'' \<noteq> PStr ''tsv''" by simp_all
  note t = unsupported_format_skips_write [OF ex_json_built d c f n1 n2, of "PStr ''j''" "[]"]
  from t have "generate_dataset ex_env (ex_generator []) (PStr ''j'') ex_json ex_world =
           (None,
            ex_world\<lparr>rng := 2\<rparr>\<lparr>console := console ex_world @
                  [Line (''Generated '' @ py_str ex_env (num_rows ?b) @ '' rows for dataset ''
                         @ [CHR 0x27] @ py_str ex_env (PStr ''j'') @ [CHR 0x27]),
                   Preview (head10 (data ?b)),
                   Line (''Unsupported output format: '' @ py_str ex_env (PStr ''json''))],
                dirs := List.insert ''output/'' (dirs ex_world)\<rparr>)"
    by (rule conjunct1 [OF conjunct2])
  then have g: "generate_dataset ex_env (ex_generator []) (PStr ''j'') ex_json ex_world =
       (None,
        \<lparr>rng = 2, ticks = 0, dirs = [''output/''], files = [],
         console =
           [Line (''Generated 2 rows for dataset '' @ [CHR 0x27] @ ''j'' @ [CHR 0x27]),
            Preview [(PStr ''y'', [PInt 0, PInt 1])],
            Line ''Unsupported output format: json'']\<rparr>)"
    by (simp add: ex_world_def head10_def ex_json_lines)
  note b = ex_json_built
  show ?thesis by (intro conjI; fact)
qed

text \<open>
  Claim C5 as stated fails for a dataset that does not reach the write. With the
  effective format \<open>json\<close> and a field whose type names no attribute of Faker, the
  \<open>AttributeError\<close> of the field loop leaves \<open>generate\<close>, and nothing is printed.
\<close>

theorem unsupported_format_counterexample:
  "py_get ex_json_unknown ''output'' (PDict []) = Inr (PDict [(PStr ''format'', PStr ''json'')])
   \<and> merge_configs (global_output (ex_generator [(PStr ''j'', ex_json_unknown)]))
         (PDict [(PStr ''format'', PStr ''json'')])
       = Inr (PDict [(PStr ''format'', PStr ''json'')])
   \<and> py_get (PDict [(PStr ''format'', PStr ''json'')]) ''format'' (PStr ''csv'')
       = Inr (PStr ''json'')
   \<and> generate ex_env (ex_generator [(PStr ''j'', ex_json_unknown)]) ex_world
       = (Some AttributeError, ex_world)
   \<and> console ex_world = []"
  by (simp add: ex_json_unknown_run) (simp add: ex_world_def)

section \<open>Row counts that are not positive\<close>

text \<open>
  Claim C10, as amended. For a dataset whose \<open>rows\<close> is an integer that is zero or
  negative, and whose other parts are in order (the metadata and output sections
  merge, the fields can be iterated and each is a dictionary with a hashable name
  and a type naming an attribute of Faker, the metadata fields can be iterated when
  metadata is enabled): the build succeeds, nothing rejects the row count, no
  producer is called and the clock is not read, and every column, field or
  metadata, has no cells. When moreover the effective output directory is a string
  naming a directory that can be created, the effective format is \<open>csv\<close> or \<open>tsv\<close>
  and the file can be written, the loop body ends without an exception and has
  written, at the dataset's path, a file with the column names as header and no row.
\<close>

theorem nonpositive_rows_header_only:
  assumes "py_get c ''rows'' (PInt 100) = Inr (PInt n)" and "n \<le> 0"
    and "py_get c ''metadata'' (PDict []) = Inr lm"
    and "merge_configs (global_metadata g) lm = Inr mc"
    and "py_get c ''output'' (PDict []) = Inr lo"
    and "merge_configs (global_output g) lo = Inr oc"
    and "py_get c ''fields'' (PList []) = Inr fs" and "py_iter fs = Inr fl"
    and "list_all (field_ok e) fl"
    and "enabled mc \<longrightarrow> fields_iterable mc"
    and "keys = insert_keys [] (field_names fl
                  @ (if enabled mc then filter recognized (listed_fields mc) else []))"
  shows "build_table e g c w =
           (Inr \<lparr>data = empty_columns keys, num_rows = PInt n,
                 metadata_config = mc, output_config = oc\<rparr>, w)
       \<and> (\<forall>p \<in> set (empty_columns keys). snd p = [])
       \<and> (py_get oc ''directory'' (PStr ''output/'') = Inr (PStr dir) \<and> creatable e dir
          \<and> py_get oc ''format'' (PStr ''csv'') = Inr fmt
          \<and> (fmt = PStr ''csv'' \<or> fmt = PStr ''tsv'')
          \<and> writable e (path_join dir (py_str e name @ ''.'' @ py_str e fmt))
          \<longrightarrow> generate_dataset e g name c w =
                (None,
                 w\<lparr>console := console w @
                      [Line (''Generated '' @ py_str e (PInt n) @ '' rows for dataset ''
                             @ [CHR 0x27] @ py_str e name @ [CHR 0x27]),
                       Preview (empty_columns keys)],
                   dirs := List.insert dir (dirs w),
                   files := AList.update (path_join dir (py_str e name @ ''.'' @ py_str e fmt))
                     \<lparr>sep = (if fmt = PStr ''csv'' then CHR '','' else CHR 0x09),
                      header = keys, body = []\<rparr>
                     (files w)\<rparr>))"
proof -
  from assms(2) have r0: "py_range (PInt n) = Inr 0" by (simp add: py_range_def)
  let ?b = "\<lparr>data = empty_columns keys, num_rows = PInt n,
             metadata_config = mc, output_config = oc\<rparr>"
  have b: "build_table e g c w = (Inr ?b, w)"
    unfolding assms(11) by (rule build_table_no_rows [OF assms(1) r0 assms(3-10)])
  have c: "\<forall>p \<in> set (empty_columns keys). snd p = []"
    by (auto simp: empty_columns_def)
  have g: "generate_dataset e g name c w =
                (None,
                 w\<lparr>console := console w @
                      [Line (''Generated '' @ py_str e (PInt n) @ '' rows for dataset ''
                             @ [CHR 0x27] @ py_str e name @ [CHR 0x27]),
                       Preview (empty_columns keys)],
                   dirs := List.insert dir (dirs w),
                   files := AList.update (path_join dir (py_str e name @ ''.'' @ py_str e fmt))
                     \<lparr>sep = (if fmt = PStr ''csv'' then CHR '','' else CHR 0x09),
                      header = keys, body = []\<rparr>
                     (files w)\<rparr>)"
    if h: "py_get oc ''directory'' (PStr ''output/'') = Inr (PStr dir) \<and> creatable e dir
          \<and> py_get oc ''format'' (PStr ''csv'') = Inr fmt
          \<and> (fmt = PStr ''csv'' \<or> fmt = PStr ''tsv'')
          \<and> writable e (path_join dir (py_str e name @ ''.'' @ py_str e fmt))"
  proof -
    have df: "data_frame (data ?b) = Inr (data ?b)" by (simp add: data_frame_empty_columns)
    from h have d: "py_get (output_config ?b) ''directory'' (PStr ''output/'') = Inr (PStr dir)"
      and ok: "creatable e dir"
      and f: "py_get (output_config ?b) ''format'' (PStr ''csv'') = Inr fmt"
      and sup: "fmt = PStr ''csv'' \<or> fmt = PStr ''tsv''"
      and wr: "writable e (path_join dir (py_str e name @ ''.'' @ py_str e fmt))"
      by simp_all
    from write_output_delimited [OF df d ok f sup wr, of w] b show ?thesis
      by (simp add: generate_dataset_def head10_empty_columns keys_empty_columns
            transpose_empty_columns)
  qed
  from b c g show ?thesis by blast
qed

theorem nonpositive_rows_header_only_witness:
  "py_get ex_zero_rows ''rows'' (PInt 100) = Inr (PInt 0) \<and> (0 :: int) \<le> 0
   \<and> list_all (field_ok ex_env) [field_spec ''x'' ''zip'']
   \<and> creatable ex_env ''output/''
   \<and> build_table ex_env (ex_generator []) ex_zero_rows ex_world =
       (Inr \<lparr>data = empty_columns [PStr ''x'', PStr ''created_at''],
             num_rows = PInt 0,
             metadata_config =
               PDict [(PStr ''enable'', PBool True), (PStr ''fields'', PList [PStr ''created_at''])],
             output_config = PDict []\<rparr>, ex_world)
   \<and> generate_dataset ex_env (ex_generator []) (PStr ''z'') ex_zero_rows ex_world =
       (None,
        \<lparr>rng = 0, ticks = 0, dirs = [''output/''],
         files = [(''output/z.csv'',
                   \<lparr>sep = CHR '','', header = [PStr ''x'', PStr ''created_at''], body = []\<rparr>)],
         console =
           [Line (''Generated 0 rows for dataset '' @ [CHR 0x27] @ ''z'' @ [CHR 0x27]),
            Preview (empty_columns [PStr ''x'', PStr ''created_at''])]\<rparr>)"
proof -
  let ?mc = "PDict [(PStr ''enable'', PBool True), (PStr ''fields'', PList [PStr ''created_at''])]"
  note p = ex_zero_rows_parts
  note q = ex_zero_rows_write
  have le: "(0 :: int) \<le> 0" by simp
  have it: "enabled ?mc \<longrightarrow> fields_iterable ?mc" using p(9) by simp
  have k: "[PStr ''x'', PStr ''created_at''] = insert_keys [] (field_names [field_spec ''x'' ''zip'']
                  @ (if enabled ?mc then filter recognized (listed_fields ?mc) else []))"
    using p(10) p(11) by simp
  note t = nonpositive_rows_header_only [OF p(1) le p(2) p(3) p(4) p(5) p(6) p(7) p(8) it k,
      of ex_world "''output/''" "PStr ''csv''" "PStr ''z''"]
  from t have b: "build_table ex_env (ex_generator []) ex_zero_rows ex_world =
       (Inr \<lparr>data = empty_columns [PStr ''x'', PStr ''created_at''],
             num_rows = PInt 0, metadata_config = ?mc, output_config = PDict []\<rparr>, ex_world)"
    by (rule conjunct1)
  from t q(1) q(2) q(3) q(4)
  have "generate_dataset ex_env (ex_generator []) (PStr ''z'') ex_zero_rows ex_world =
                (None,
                 ex_world\<lparr>console := console ex_world @
                      [Line (''Generated '' @ py_str ex_env (PInt 0) @ '' rows for dataset ''
                             @ [CHR 0x27] @ py_str ex_env (PStr ''z'') @ [CHR 0x27]),
                       Preview (empty_columns [PStr ''x'', PStr ''created_at''])],
                   dirs := List.insert ''output/'' (dirs ex_world),
                   files := AList.update
                     (path_join ''output/'' (py_str ex_env (PStr ''z'') @ ''.''
                        @ py_str ex_env (PStr ''csv'')))
                     \<lparr>sep = (if PStr ''csv'' = PStr ''csv'' then CHR '','' else CHR 0x09),
                      header = [PStr ''x'', PStr ''created_at''], body = []\<rparr>
                     (files ex_world)\<rparr>)"
    by blast
  note m = this [unfolded q(5)]
  from m have g: "generate_dataset ex_env (ex_generator []) (PStr ''z'') ex_zero_rows ex_world =
       (None,
        \<lparr>rng = 0, ticks = 0, dirs = [''output/''],
         files = [(''output/z.csv'',
                   \<lparr>sep = CHR '','', header = [PStr ''x'', PStr ''created_at''], body = []\<rparr>)],
         console =
           [Line (''Generated 0 rows for dataset '' @ [CHR 0x27] @ ''z'' @ [CHR 0x27]),
            Preview (empty_columns [PStr ''x'', PStr ''created_at''])]\<rparr>)"
    by (simp add: q(6) q(7) ex_world_def)
  note r = p(1) p(8) q(2)
  show ?thesis by (intro conjI; fact)
qed

text \<open>
  Claim C10 as stated fails for a dataset that is not in order otherwise: with
  \<open>rows: 0\<close> and a field whose type names no attribute of Faker, the build raises
  \<open>AttributeError\<close>.
\<close>

theorem nonpositive_rows_counterexample:
  "py_get ex_zero_rows_unknown ''rows'' (PInt 100) = Inr (PInt 0)
   \<and> (0 :: int) \<le> 0
   \<and> build_table ex_env (ex_generator []) ex_zero_rows_unknown ex_world
       = (Inl AttributeError, ex_world)"
  by (simp add: ex_zero_rows_unknown_built)

end
